theory Spec2Isabelle
  imports Complex_Main "HOL-Library.Sublist"
begin

section \<open>JavaScript values\<close>

text \<open>
  A JavaScript string is a sequence of UTF-16 code units. A code unit is modelled as a
  natural number (below 65536 in the program; nothing below depends on the bound), so
  the theorems cover every string the extension can meet, whatever its alphabet. String
  literals of the source are written \<open>js ''...''\<close>.
\<close>

type_synonym jsstring = "nat list"

definition js :: "string \<Rightarrow> jsstring" where
  "js s = map of_char s"

text \<open>
  The values that \<open>JSON.parse\<close>, \<open>chrome.storage\<close> and message passing can
  deliver. A JSON number is a finite double or, on overflow of the literal, an infinity;
  \<open>NaN\<close> has no JSON literal. Finite doubles are rationals, and the only operations
  applied to them below (\<open>Math.min\<close>, \<open>Math.max\<close>, comparison, truthiness) are exact.
\<close>

datatype jsnum = Fin rat | PInf | NInf

datatype json =
    JNull
  | JBool bool
  | JNum jsnum
  | JStr jsstring
  | JArr "json list"
  | JObj "(jsstring \<times> json) list"

text \<open>Exceptions are values: the left summand of a result.\<close>

datatype js_error = TypeError | SyntaxError | Rejected

text \<open>\<open>ToBoolean\<close>: the falsy JSON values are \<open>null\<close>, \<open>false\<close>, \<open>0\<close> and \<open>""\<close>.\<close>

fun truthy :: "json \<Rightarrow> bool" where
  "truthy JNull = False"
| "truthy (JBool b) = b"
| "truthy (JNum n) = (n \<noteq> Fin 0)"
| "truthy (JStr s) = (s \<noteq> [])"
| "truthy (JArr xs) = True"
| "truthy (JObj kvs) = True"

text \<open>A property that may be absent: \<open>None\<close> is \<open>undefined\<close>, which is falsy.\<close>

definition truthy_opt :: "json option \<Rightarrow> bool" where
  "truthy_opt v = (case v of None \<Rightarrow> False | Some x \<Rightarrow> truthy x)"

text \<open>\<open>a || d\<close> where \<open>a\<close> may be \<open>undefined\<close>.\<close>

definition or_default :: "json option \<Rightarrow> json \<Rightarrow> json" where
  "or_default v d = (case v of None \<Rightarrow> d | Some x \<Rightarrow> if truthy x then x else d)"

section \<open>Recommendation engine\<close>

text \<open>
  Both implementations read the table
  \<^verbatim>\<open>
  const recommendations = {
    anxiety: ["breathing", "mindfulness"],
    anger: ["breathing", "mindfulness"],
    negative: ["affirmation", "mindfulness"],
    positive: ["affirmation"],
    neutral: ["breathing", "affirmation", "mindfulness"]
  };
  const suggested = recommendations[emotion] || recommendations.neutral;
  \<close>
  The table is an object literal, so a lookup that misses its own five keys continues in
  \<open>Object.prototype\<close>. An emotion string naming one of the prototype's properties
  yields that (truthy) function or object, not the neutral list.
\<close>

definition recommendations :: "(jsstring \<times> jsstring list) list" where
  "recommendations =
    [(js ''anxiety'', [js ''breathing'', js ''mindfulness'']),
     (js ''anger'', [js ''breathing'', js ''mindfulness'']),
     (js ''negative'', [js ''affirmation'', js ''mindfulness'']),
     (js ''positive'', [js ''affirmation'']),
     (js ''neutral'', [js ''breathing'', js ''affirmation'', js ''mindfulness''])]"

definition object_prototype_keys :: "jsstring list" where
  "object_prototype_keys =
    [js ''constructor'', js ''__defineGetter__'', js ''__defineSetter__'',
     js ''hasOwnProperty'', js ''__lookupGetter__'', js ''__lookupSetter__'',
     js ''isPrototypeOf'', js ''propertyIsEnumerable'', js ''toString'',
     js ''valueOf'', js ''__proto__'', js ''toLocaleString'']"

datatype suggested = Candidates "jsstring list" | Inherited

definition suggested_for :: "jsstring \<Rightarrow> suggested" where
  "suggested_for emotion =
    (case map_of recommendations emotion of
       Some l \<Rightarrow> Candidates l
     | None \<Rightarrow>
         if emotion \<in> set object_prototype_keys then Inherited
         else Candidates [js ''breathing'', js ''affirmation'', js ''mindfulness''])"

text \<open>
  The shared configuration record; only \<open>preferredExercises\<close> is read here. \<open>None\<close>
  stands for a missing (or falsy) \<open>preferredExercises\<close> property, and inside the mapping
  \<open>None\<close> stands for a missing key.
\<close>

record config =
  preferredExercises :: "(jsstring \<rightharpoonup> json) option"

text \<open>
  \<open>AIService.getRecommendedExercise\<close> (ai-service.js):
  \<^verbatim>\<open>
  const availableExercises = suggested.filter(ex =>
    !preferences.preferredExercises || preferences.preferredExercises[ex] !== false);
  return availableExercises[0] || "breathing";
  \<close>
  Calling \<open>filter\<close> on an inherited non-array raises a TypeError.
\<close>

definition not_disabled :: "config \<Rightarrow> jsstring \<Rightarrow> bool" where
  "not_disabled preferences ex =
    (case preferredExercises preferences of
       None \<Rightarrow> True
     | Some p \<Rightarrow> p ex \<noteq> Some (JBool False))"

definition getRecommendedExercise :: "jsstring \<Rightarrow> config \<Rightarrow> js_error + jsstring" where
  "getRecommendedExercise emotion preferences =
    (case suggested_for emotion of
       Inherited \<Rightarrow> Inl TypeError
     | Candidates suggested \<Rightarrow>
         (let availableExercises = filter (not_disabled preferences) suggested
          in case availableExercises of
               [] \<Rightarrow> Inr (js ''breathing'')
             | ex # _ \<Rightarrow> Inr (if ex = [] then js ''breathing'' else ex)))"

text \<open>
  \<open>getRecommendedExercise\<close> of the background worker:
  \<^verbatim>\<open>
  if (cfg.preferredExercises && cfg.preferredExercises.breathing) exercises.push("breathing");
  ... affirmation ... mindfulness ...
  if (exercises.length === 0) exercises.push("breathing", "affirmation", "mindfulness");
  for (const ex of suggested) { if (exercises.includes(ex)) return ex; }
  return exercises[0] || "breathing";
  \<close>
  Iterating an inherited non-iterable raises a TypeError.
\<close>

definition preferred :: "config \<Rightarrow> jsstring \<Rightarrow> bool" where
  "preferred cfg ex =
    (case preferredExercises cfg of
       None \<Rightarrow> False
     | Some p \<Rightarrow> truthy_opt (p ex))"

definition preferred_list :: "config \<Rightarrow> jsstring list" where
  "preferred_list cfg =
    (let exercises =
       (if preferred cfg (js ''breathing'') then [js ''breathing''] else []) @
       (if preferred cfg (js ''affirmation'') then [js ''affirmation''] else []) @
       (if preferred cfg (js ''mindfulness'') then [js ''mindfulness''] else [])
     in if length exercises = 0
        then [js ''breathing'', js ''affirmation'', js ''mindfulness'']
        else exercises)"

definition bg_getRecommendedExercise :: "jsstring \<Rightarrow> config \<Rightarrow> js_error + jsstring" where
  "bg_getRecommendedExercise emotion cfg =
    (let exercises = preferred_list cfg
     in case suggested_for emotion of
          Inherited \<Rightarrow> Inl TypeError
        | Candidates suggested \<Rightarrow>
            (case find (\<lambda>ex. ex \<in> set exercises) suggested of
               Some ex \<Rightarrow> Inr ex
             | None \<Rightarrow>
                 (case exercises of
                    [] \<Rightarrow> Inr (js ''breathing'')
                  | ex # _ \<Rightarrow> Inr (if ex = [] then js ''breathing'' else ex))))"

text \<open>
  The recommendation rule in the specification's words: the five categories, their
  ordered candidates, and the scan for the first candidate that the preference mapping
  does not explicitly disable, with \<open>breathing\<close> as the fixed default.
\<close>

datatype emotion_category = Positive | Negative | Anxiety | Anger | Neutral

fun category_name :: "emotion_category \<Rightarrow> jsstring" where
  "category_name Positive = js ''positive''"
| "category_name Negative = js ''negative''"
| "category_name Anxiety = js ''anxiety''"
| "category_name Anger = js ''anger''"
| "category_name Neutral = js ''neutral''"

fun priority_table :: "emotion_category \<Rightarrow> jsstring list" where
  "priority_table Anxiety = [js ''breathing'', js ''mindfulness'']"
| "priority_table Anger = [js ''breathing'', js ''mindfulness'']"
| "priority_table Negative = [js ''affirmation'', js ''mindfulness'']"
| "priority_table Positive = [js ''affirmation'']"
| "priority_table Neutral = [js ''breathing'', js ''affirmation'', js ''mindfulness'']"

fun first_not_disabled :: "(jsstring \<rightharpoonup> json) \<Rightarrow> jsstring list \<Rightarrow> jsstring" where
  "first_not_disabled p [] = js ''breathing''"
| "first_not_disabled p (c # cs) =
     (if p c = Some (JBool False) then first_not_disabled p cs else c)"

section \<open>History store\<close>

text \<open>
  The \<open>TRACK_EMOTION\<close> message as the content script sends it, and the sender of a
  message. A property that the message lacks is \<open>None\<close>. The emotion label of a message
  and of a stored record is a string, as the data model has it.
\<close>

record track_emotion_msg =
  msg_emotion :: jsstring
  msg_score :: "json option"
  msg_intensity :: "json option"
  msg_keywords :: "json option"
  msg_suggestion :: "json option"
  msg_source :: "json option"

record tab_info =
  tab_url :: "jsstring option"
  tab_title :: "jsstring option"

record message_sender =
  tab :: "tab_info option"

text \<open>
  The persisted records. \<open>ts\<close> is \<open>Date.now()\<close>, an integer number of milliseconds;
  \<open>url\<close> and \<open>title\<close> are \<open>None\<close> when the source stores \<open>null\<close> or nothing.
\<close>

record emotion_record =
  ts :: int
  url :: "jsstring option"
  title :: "jsstring option"
  rec_emotion :: jsstring
  rec_score :: json
  rec_intensity :: json
  rec_keywords :: json
  rec_suggestion :: json
  rec_source :: json

record track_exercise_msg =
  msg_exercise :: jsstring
  msg_duration :: "json option"
  msg_completed :: "json option"

record exercise_record =
  ex_ts :: int
  exercise :: jsstring
  duration :: json
  completed :: json

record storage =
  emotionHistory :: "emotion_record list"
  exerciseHistory :: "exercise_record list"

record track_response =
  ok :: bool
  recommendation :: jsstring

text \<open>
  The record built by the \<open>TRACK_EMOTION\<close> handler:
  \<^verbatim>\<open>
  const record = {
    ts: Date.now(),
    url: sender.tab ? sender.tab.url : null,
    title: sender.tab ? sender.tab.title : null,
    emotion: msg.emotion,
    score: msg.score || null,
    intensity: msg.intensity || "medium",
    keywords: msg.keywords || [],
    suggestion: msg.suggestion || "",
    source: msg.source || "unknown"
  };
  \<close>
\<close>

definition emotion_record_of ::
  "int \<Rightarrow> track_emotion_msg \<Rightarrow> message_sender \<Rightarrow> emotion_record" where
  "emotion_record_of now msg sndr =
    \<lparr>ts = now,
     url = (case tab sndr of None \<Rightarrow> None | Some t \<Rightarrow> tab_url t),
     title = (case tab sndr of None \<Rightarrow> None | Some t \<Rightarrow> tab_title t),
     rec_emotion = msg_emotion msg,
     rec_score = or_default (msg_score msg) JNull,
     rec_intensity = or_default (msg_intensity msg) (JStr (js ''medium'')),
     rec_keywords = or_default (msg_keywords msg) (JArr []),
     rec_suggestion = or_default (msg_suggestion msg) (JStr []),
     rec_source = or_default (msg_source msg) (JStr (js ''unknown''))\<rparr>"

text \<open>
  Eviction is the filter that both handlers run after appending:
  \<^verbatim>\<open>
  const sevenDaysAgo = Date.now() - (7 * 24 * 60 * 60 * 1000);
  const filtered = arr.filter(r => r.ts >= sevenDaysAgo);
  \<close>
  \<open>stamp\<close> reads the timestamp of a record, so that one definition serves both logs.
\<close>

definition evict :: "('r \<Rightarrow> int) \<Rightarrow> int \<Rightarrow> int \<Rightarrow> 'r list \<Rightarrow> 'r list" where
  "evict stamp retentionWindowMs now arr =
     filter (\<lambda>r. stamp r \<ge> now - retentionWindowMs) arr"

definition emotion_retention :: int where
  "emotion_retention = 7 * 24 * 60 * 60 * 1000"

definition exercise_retention :: int where
  "exercise_retention = 30 * 24 * 60 * 60 * 1000"

text \<open>
  The \<open>TRACK_EMOTION\<close> handler. The clock is read twice: \<open>now1\<close> when the record is
  built, \<open>now2\<close> inside the storage callback, where the log is extended, evicted and
  written back. The recommendation is computed afterwards; if it raises, the storage has
  been written and no response is sent.
\<close>

definition track_emotion ::
  "int \<Rightarrow> int \<Rightarrow> track_emotion_msg \<Rightarrow> message_sender \<Rightarrow> config \<Rightarrow> storage
     \<Rightarrow> storage \<times> (js_error + track_response)" where
  "track_emotion now1 now2 msg sndr cfg st =
    (let entry = emotion_record_of now1 msg sndr;
         arr = emotionHistory st @ [entry];
         filtered = evict ts emotion_retention now2 arr
     in (st\<lparr>emotionHistory := filtered\<rparr>,
         case bg_getRecommendedExercise (msg_emotion msg) cfg of
           Inl e \<Rightarrow> Inl e
         | Inr r \<Rightarrow> Inr \<lparr>ok = True, recommendation = r\<rparr>))"

text \<open>
  The \<open>TRACK_EXERCISE\<close> handler:
  \<^verbatim>\<open>
  const record = { ts: Date.now(), exercise: msg.exercise,
                   duration: msg.duration || null, completed: msg.completed || false };
  \<close>
\<close>

definition track_exercise :: "int \<Rightarrow> int \<Rightarrow> track_exercise_msg \<Rightarrow> storage \<Rightarrow> storage" where
  "track_exercise now1 now2 msg st =
    (let entry = \<lparr>ex_ts = now1, exercise = msg_exercise msg,
                   duration = or_default (msg_duration msg) JNull,
                   completed = or_default (msg_completed msg) (JBool False)\<rparr>;
         arr = exerciseHistory st @ [entry];
         filtered = evict ex_ts exercise_retention now2 arr
     in st\<lparr>exerciseHistory := filtered\<rparr>)"

text \<open>
  The dashboard's window query (\<open>loadData\<close>):
  \<^verbatim>\<open>const filteredEmotions = allEmotions.filter(r => r.ts >= startTime);\<close>
\<close>

definition queryWindow :: "int \<Rightarrow> emotion_record list \<Rightarrow> emotion_record list" where
  "queryWindow startTime allEmotions = filter (\<lambda>r. ts r \<ge> startTime) allEmotions"

section \<open>Insight generator\<close>

text \<open>Decimal rendering of a count inside a template string.\<close>

fun show_nat :: "nat \<Rightarrow> jsstring" where
  "show_nat n = (if n < 10 then [48 + n] else show_nat (n div 10) @ [48 + n mod 10])"

declare show_nat.simps [simp del]

definition mostly_positive_message :: jsstring where
  "mostly_positive_message =
     js ''You've been exposed to mostly positive content. Great job curating your digital environment!''"

definition significant_negative_message :: jsstring where
  "significant_negative_message =
     js ''You've encountered significant negative or stressful content. Consider taking breaks or using wellness exercises more frequently.''"

definition balanced_message :: jsstring where
  "balanced_message =
     js ''Your emotional exposure is balanced. Keep monitoring your wellbeing as you browse.''"

definition high_anxiety_message :: jsstring where
  "high_anxiety_message =
     js ''High anxiety detection. Try the breathing exercise to help manage stress levels.''"

definition commitment_message :: "nat \<Rightarrow> jsstring" where
  "commitment_message completedExercises =
     js ''Great commitment! You've completed '' @ show_nat completedExercises @
     js '' wellness exercises. Keep up the self-care!''"

definition try_exercises_message :: jsstring where
  "try_exercises_message =
     js ''You haven't tried any wellness exercises yet. They can help manage stress and improve your mood.''"

definition ai_usage_message :: "nat \<Rightarrow> jsstring" where
  "ai_usage_message aiAnalyzed =
     show_nat aiAnalyzed @
     js '' analyses were powered by Chrome's built-in AI for enhanced accuracy.''"

text \<open>
  The frequency count of \<open>generateInsights\<close>:
  \<^verbatim>\<open>
  const counts = emotionData.reduce((acc, r) => {
    acc[r.emotion] = (acc[r.emotion] || 0) + 1; return acc; }, {});
  \<close>
  and \<open>counts.k || 0\<close> for a key that may be missing. (Under a label that names a
  property of \<open>Object.prototype\<close> the program accumulates a string instead of a number;
  no such key is read afterwards.)
\<close>

definition or_zero :: "nat option \<Rightarrow> nat" where
  "or_zero v = (case v of None \<Rightarrow> 0 | Some n \<Rightarrow> n)"

definition count_emotions :: "emotion_record list \<Rightarrow> (jsstring \<rightharpoonup> nat)" where
  "count_emotions emotionData =
     fold (\<lambda>r acc. acc(rec_emotion r \<mapsto> or_zero (acc (rec_emotion r)) + 1))
       emotionData Map.empty"

text \<open>
  What \<open>generateInsights\<close> renders: the empty state below five records, otherwise the
  insight texts in the order they were pushed. The products \<open>total * 0.5\<close> and
  \<open>total * 0.3\<close> are compared with whole counts; the comparisons are taken over the
  rationals, where they have the same outcome.
\<close>

datatype insights_view = EmptyState | InsightItems "jsstring list"

definition generateInsights ::
  "emotion_record list \<Rightarrow> exercise_record list \<Rightarrow> insights_view" where
  "generateInsights emotionData exerciseData =
    (if length emotionData < 5 then EmptyState
     else
      (let counts = count_emotions emotionData;
           total = length emotionData;
           negativeCount = or_zero (counts (js ''negative'')) + or_zero (counts (js ''anxiety''))
                             + or_zero (counts (js ''anger''));
           positiveCount = or_zero (counts (js ''positive''));
           insight1 =
             (if (of_nat positiveCount :: rat) > of_nat total * (1 / 2)
              then [mostly_positive_message]
              else if (of_nat negativeCount :: rat) > of_nat total * (1 / 2)
              then [significant_negative_message]
              else [balanced_message]);
           insight2 =
             (if (of_nat (or_zero (counts (js ''anxiety''))) :: rat) > of_nat total * (3 / 10)
              then [high_anxiety_message] else []);
           completedExercises = length (filter (\<lambda>e. truthy (completed e)) exerciseData);
           insight3 =
             (if completedExercises > 5 then [commitment_message completedExercises]
              else if completedExercises = 0 \<and> negativeCount > 3 then [try_exercises_message]
              else []);
           aiAnalyzed = length (filter (\<lambda>e. rec_source e = JStr (js ''chrome-ai'')) emotionData);
           insight4 = (if aiAnalyzed > 0 then [ai_usage_message aiAnalyzed] else [])
       in InsightItems (insight1 @ insight2 @ insight3 @ insight4)))"

section \<open>Heuristic classifier\<close>

text \<open>
  Built-in functions of the JavaScript engine that the classifier calls and that depend on
  the Unicode tables are parameters of the model: \<open>String.prototype.toLowerCase\<close>, the
  case folding \<open>Canonicalize\<close> that a regular expression with the \<open>i\<close> flag applies to
  each code unit, and \<open>JSON.parse\<close>. Every theorem below that does not fix them holds
  for all of them.
\<close>

record builtins =
  toLowerCase :: "jsstring \<Rightarrow> jsstring"
  canonicalize :: "nat \<Rightarrow> nat"
  JSON_parse :: "jsstring \<Rightarrow> js_error + json"

text \<open>
  The class \<open>\s\<close> of a regular expression (white space and line terminators), and the
  word characters \<open>[A-Za-z0-9_]\<close> that decide \<open>\b\<close>.
\<close>

definition is_white_space :: "nat \<Rightarrow> bool" where
  "is_white_space c \<longleftrightarrow>
     c \<in> set [9, 10, 11, 12, 13, 32, 160, 5760, 8232, 8233, 8239, 8287, 12288, 65279]
     \<or> (8192 \<le> c \<and> c \<le> 8202)"

definition is_word_char :: "nat \<Rightarrow> bool" where
  "is_word_char c \<longleftrightarrow>
     (48 \<le> c \<and> c \<le> 57) \<or> (65 \<le> c \<and> c \<le> 90) \<or> c = 95 \<or> (97 \<le> c \<and> c \<le> 122)"

text \<open>
  \<open>s.split(/\s+/)\<close>: the text before the first run of white space, then the split of
  what follows the run. A string without white space, the empty string included, is a
  single token; a leading or trailing run yields an empty token.
\<close>

function split_whitespace :: "jsstring \<Rightarrow> jsstring list" where
  "split_whitespace s =
     (if dropWhile (\<lambda>c. \<not> is_white_space c) s = []
      then [takeWhile (\<lambda>c. \<not> is_white_space c) s]
      else takeWhile (\<lambda>c. \<not> is_white_space c) s #
           split_whitespace (dropWhile is_white_space (dropWhile (\<lambda>c. \<not> is_white_space c) s)))"
  by pat_completeness auto
termination
proof (relation "measure length")
  fix s :: jsstring
  assume ne: "dropWhile (\<lambda>c. \<not> is_white_space c) s \<noteq> []"
  then obtain c cs where eq: "dropWhile (\<lambda>c. \<not> is_white_space c) s = c # cs"
    by (cases "dropWhile (\<lambda>c. \<not> is_white_space c) s") auto
  have "is_white_space c"
    using hd_dropWhile [OF ne] eq by simp
  then have "length (dropWhile is_white_space (c # cs)) \<le> length cs"
    by (simp add: length_dropWhile_le)
  moreover have "length (c # cs) \<le> length s"
    using length_dropWhile_le [of "\<lambda>c. \<not> is_white_space c" s] eq by simp
  ultimately show "(dropWhile is_white_space (dropWhile (\<lambda>c. \<not> is_white_space c) s), s)
      \<in> measure length"
    using eq by simp
qed simp

declare split_whitespace.simps [simp del]

text \<open>
  The regular expression \<open>new RegExp(`\\b${keyword}\\b`, "gi")\<close> for a keyword without
  metacharacters (no lexicon entry has one): a word boundary, the keyword's code units
  compared under case folding, a word boundary. Position \<open>i\<close> is a word boundary when
  exactly one of the code units before and at \<open>i\<close> is a word character; outside the
  string there is none. A letter outside \<open>[A-Za-z0-9_]\<close> is no word character, so at
  the end of a keyword that begins or ends with such a letter the boundary asks for a word
  character next to it.
\<close>

definition is_boundary :: "jsstring \<Rightarrow> nat \<Rightarrow> bool" where
  "is_boundary s i \<longleftrightarrow>
     (0 < i \<and> i \<le> length s \<and> is_word_char (s ! (i - 1)))
       \<noteq> (i < length s \<and> is_word_char (s ! i))"

definition matches_at :: "builtins \<Rightarrow> jsstring \<Rightarrow> jsstring \<Rightarrow> nat \<Rightarrow> bool" where
  "matches_at b keyword s i \<longleftrightarrow>
     is_boundary s i \<and> i + length keyword \<le> length s
     \<and> map (canonicalize b) (take (length keyword) (drop i s)) = map (canonicalize b) keyword
     \<and> is_boundary s (i + length keyword)"

text \<open>
  \<open>lowerText.match(regex)\<close> with the \<open>g\<close> flag collects the matches from left to right:
  after a match the search resumes at its end (one further after an empty match),
  otherwise at the next position, until the position passes the end of the string.
  \<open>count_from\<close> is the number of matches found from position \<open>i\<close> on, that is
  \<open>matches.length\<close>, or 0 when \<open>match\<close> returns \<open>null\<close>.
\<close>

function count_from :: "builtins \<Rightarrow> jsstring \<Rightarrow> jsstring \<Rightarrow> nat \<Rightarrow> nat" where
  "count_from b keyword s i =
     (if length s < i then 0
      else if matches_at b keyword s i
      then 1 + count_from b keyword s (i + max 1 (length keyword))
      else count_from b keyword s (i + 1))"
  by pat_completeness auto
termination
proof (relation "measure (\<lambda>p. Suc (length (fst (snd (snd p)))) - snd (snd (snd p)))")
  fix b :: builtins and keyword s :: jsstring and i :: nat
  assume "\<not> length s < i"
  then show "((b, keyword, s, i + max 1 (length keyword)), b, keyword, s, i)
        \<in> measure (\<lambda>p. Suc (length (fst (snd (snd p)))) - snd (snd (snd p)))"
    by simp
  assume "\<not> length s < i"
  then show "((b, keyword, s, i + 1), b, keyword, s, i)
        \<in> measure (\<lambda>p. Suc (length (fst (snd (snd p)))) - snd (snd (snd p)))"
    by simp
qed simp

declare count_from.simps [simp del]

definition match_count :: "builtins \<Rightarrow> jsstring \<Rightarrow> jsstring \<Rightarrow> nat" where
  "match_count b keyword s = count_from b keyword s 0"

text \<open>The lexicon \<open>emotionKeywords\<close>, one list per category, in the order of the source.\<close>

definition positive_keywords :: "jsstring list" where
  "positive_keywords =
    [js ''happy'', js ''joy'', js ''wonderful'', js ''great'', js ''positive'',
     js ''optimistic'', js ''celebrate'', js ''excited'', js ''love'', js ''beautiful'',
     js ''amazing'', js ''excellent'', js ''fantastic'', js ''cheerful'',
     js ''delighted'', js ''pleased'', js ''feliz'', js ''alegria'', js ''maravilhoso'',
     [243] @ js ''timo'', js ''positivo'', js ''otimista'', js ''celebrar'',
     js ''animado'', js ''amor'', js ''lindo'', js ''incr'' @ [237] @ js ''vel'',
     js ''excelente'', js ''fant'' @ [225] @ js ''stico'', js ''feliz'',
     js ''alegr'' @ [237] @ js ''a'', js ''maravilloso'', js ''genial'', js ''positivo'',
     js ''optimista'', js ''celebrar'', js ''emocionado'', js ''amor'', js ''hermoso'',
     js ''incre'' @ [237] @ js ''ble'', js ''excelente'',
     js ''fant'' @ [225] @ js ''stico'', js ''heureux'', js ''joie'', js ''merveilleux'',
     js ''g'' @ [233] @ js ''nial'', js ''positif'', js ''optimiste'',
     js ''c'' @ [233] @ js ''l'' @ [233] @ js ''brer'', js ''excit'' @ [233],
     js ''amour'', js ''beau'', js ''incroyable'', js ''excellent'', js ''fantastique'',
     js ''gl'' @ [252] @ js ''cklich'', js ''freude'', js ''wunderbar'',
     js ''gro'' @ [223] @ js ''artig'', js ''positiv'', js ''optimistisch'',
     js ''feiern'', js ''aufgeregt'', js ''liebe'', js ''sch'' @ [246] @ js ''n'',
     js ''erstaunlich'', js ''ausgezeichnet'']"

definition negative_keywords :: "jsstring list" where
  "negative_keywords =
    [js ''sad'', js ''terrible'', js ''worst'', js ''awful'', js ''horrible'', js ''bad'',
     js ''unfortunate'', js ''disappointing'', js ''depressing'', js ''tragic'',
     js ''miserable'', js ''unhappy'', js ''sorrow'', js ''pain'', js ''hurt'',
     js ''triste'', js ''terr'' @ [237] @ js ''vel'', js ''pior'',
     js ''horr'' @ [237] @ js ''vel'', js ''ruim'', js ''infeliz'', js ''decepcionante'',
     js ''deprimente'', js ''tr'' @ [225] @ js ''gico'',
     js ''miser'' @ [225] @ js ''vel'', js ''dor'', js ''sofrimento'', js ''triste'',
     js ''terrible'', js ''peor'', js ''horrible'', js ''malo'', js ''desafortunado'',
     js ''decepcionante'', js ''deprimente'', js ''tr'' @ [225] @ js ''gico'',
     js ''miserable'', js ''dolor'', js ''sufrimiento'', js ''triste'', js ''terrible'',
     js ''pire'', js ''horrible'', js ''mauvais'', js ''malheureux'',
     js ''d'' @ [233] @ js ''cevant'', js ''d'' @ [233] @ js ''primant'', js ''tragique'',
     js ''mis'' @ [233] @ js ''rable'', js ''douleur'', js ''traurig'',
     js ''schrecklich'', js ''schlimmste'', js ''furchtbar'', js ''schlecht'',
     js ''ungl'' @ [252] @ js ''cklich'', js ''entt'' @ [228] @ js ''uschend'',
     js ''deprimierend'', js ''tragisch'', js ''elend'', js ''schmerz'']"

definition anxiety_keywords :: "jsstring list" where
  "anxiety_keywords =
    [js ''anxious'', js ''panic'', js ''worry'', js ''nervous'', js ''stress'',
     js ''stressed'', js ''overwhelmed'', js ''fear'', js ''scared'', js ''afraid'',
     js ''uncertain'', js ''tension'', js ''pressure'', js ''worried'', js ''concern'',
     js ''ansioso'', js ''p'' @ [226] @ js ''nico'', js ''preocupado'', js ''nervoso'',
     js ''estresse'', js ''estressado'', js ''sobrecarregado'', js ''medo'',
     js ''assustado'', js ''receio'', js ''incerto'', js ''tens'' @ [227] @ js ''o'',
     js ''press'' @ [227] @ js ''o'', js ''ansioso'', js ''p'' @ [225] @ js ''nico'',
     js ''preocupado'', js ''nervioso'', js ''estr'' @ [233] @ js ''s'', js ''estresado'',
     js ''abrumado'', js ''miedo'', js ''asustado'', js ''temeroso'', js ''incierto'',
     js ''tensi'' @ [243] @ js ''n'', js ''presi'' @ [243] @ js ''n'', js ''anxieux'',
     js ''panique'', js ''inquiet'', js ''nerveux'', js ''stress'', js ''stress'' @ [233],
     js ''d'' @ [233] @ js ''bord'' @ [233], js ''peur'', js ''effray'' @ [233],
     js ''craintif'', js ''incertain'', js ''tension'', js ''pression'',
     [228] @ js ''ngstlich'', js ''panik'', js ''besorgt'',
     js ''nerv'' @ [246] @ js ''s'', js ''stress'', js ''gestresst'',
     [252] @ js ''berfordert'', js ''angst'', js ''erschrocken'', js ''unsicher'',
     js ''spannung'', js ''druck'']"

definition anger_keywords :: "jsstring list" where
  "anger_keywords =
    [js ''angry'', js ''outrage'', js ''furious'', js ''irate'', js ''rage'', js ''hate'',
     js ''attack'', js ''violence'', js ''fight'', js ''hostile'', js ''aggressive'',
     js ''frustrated'', js ''annoyed'', js ''irritated'', js ''mad'', js ''raiva'',
     js ''furioso'', js ''irritado'', [243] @ js ''dio'', js ''ataque'',
     js ''viol'' @ [234] @ js ''ncia'', js ''luta'', js ''hostil'', js ''agressivo'',
     js ''frustrado'', js ''chateado'', js ''bravo'', js ''enojado'', js ''furia'',
     js ''furioso'', js ''odio'', js ''ataque'', js ''violencia'', js ''pelea'',
     js ''hostil'', js ''agresivo'', js ''frustrado'', js ''molesto'', js ''irritado'',
     js ''en col'' @ [232] @ js ''re'', js ''furieux'', js ''rage'', js ''haine'',
     js ''attaque'', js ''violence'', js ''combat'', js ''hostile'', js ''agressif'',
     js ''frustr'' @ [233], js ''agac'' @ [233], js ''irrit'' @ [233],
     js ''w'' @ [252] @ js ''tend'', js ''zorn'', js ''wut'', js ''hass'', js ''angriff'',
     js ''gewalt'', js ''kampf'', js ''feindselig'', js ''aggressiv'', js ''frustriert'',
     js ''ver'' @ [228] @ js ''rgert'', js ''gereizt'']"

definition emotionKeywords :: "(jsstring \<times> jsstring list) list" where
  "emotionKeywords =
    [(js ''positive'', positive_keywords),
     (js ''negative'', negative_keywords),
     (js ''anxiety'', anxiety_keywords),
     (js ''anger'', anger_keywords)]"

text \<open>
  The result of a classification. The model path copies \<open>emotion\<close>, \<open>intensity\<close>,
  \<open>keywords\<close> and \<open>suggestion\<close> from the parsed response, so they are JSON values;
  \<open>score\<close> is a number on both paths.
\<close>

record classification =
  emotion :: json
  score :: jsnum
  intensity :: json
  result_keywords :: json
  suggestion :: json
  source :: json

text \<open>
  The counting loop
  \<^verbatim>\<open>
  const counts = { positive: 0, negative: 0, anxiety: 0, anger: 0 };
  for (const [emotion, keywords] of Object.entries(emotionKeywords)) {
    keywords.forEach(keyword => {
      const regex = new RegExp(`\\b${keyword}\\b`, "gi");
      const matches = lowerText.match(regex);
      if (matches) counts[emotion] += matches.length;
    });
  }
  \<close>
  yields the entries of \<open>counts\<close> in the order of its keys, which is the order of the
  lexicon.
\<close>

definition category_count :: "builtins \<Rightarrow> jsstring \<Rightarrow> jsstring list \<Rightarrow> nat" where
  "category_count b lowerText kws =
     fold (\<lambda>keyword n. n + match_count b keyword lowerText) kws 0"

definition keyword_counts :: "builtins \<Rightarrow> jsstring \<Rightarrow> (jsstring \<times> nat) list" where
  "keyword_counts b lowerText =
     map (\<lambda>(emotion, kws). (emotion, category_count b lowerText kws)) emotionKeywords"

text \<open>
  \<^verbatim>\<open>
  let dominant = "neutral"; let maxCount = 0;
  for (const [emotion, count] of Object.entries(counts)) {
    if (count > maxCount) { maxCount = count; dominant = emotion; }
  }
  \<close>
\<close>

definition dominant_step :: "jsstring \<times> nat \<Rightarrow> jsstring \<times> nat \<Rightarrow> jsstring \<times> nat" where
  "dominant_step entry best =
     (if snd entry > snd best then (fst entry, snd entry) else best)"

definition dominant_of :: "(jsstring \<times> nat) list \<Rightarrow> jsstring \<times> nat" where
  "dominant_of counts = fold dominant_step counts (js ''neutral'', 0)"

text \<open>
  \<open>fallbackEmotionAnalysis\<close>. The score \<open>maxCount / words.length\<close> is taken as the
  exact quotient, of which the program's double is the rounding; \<open>words\<close> is never
  empty. The thresholds 0.02 and 0.01 are \<open>2 / 100\<close> and \<open>1 / 100\<close>: a quotient of
  two counts that differs from a threshold does so by at least \<open>1 / (100 * words.length)\<close>,
  far more than the rounding error for any string the engine can hold, so the comparison
  has the same outcome over the rationals as over doubles.
\<close>

definition neutral_result :: classification where
  "neutral_result =
    \<lparr>emotion = JStr (js ''neutral''), score = Fin 0, intensity = JStr (js ''low''),
     result_keywords = JArr [], suggestion = JStr [],
     source = JStr (js ''multilingual-heuristic'')\<rparr>"

definition fallbackEmotionAnalysis :: "builtins \<Rightarrow> jsstring \<Rightarrow> classification" where
  "fallbackEmotionAnalysis b text =
    (let lowerText = toLowerCase b text;
         words = split_whitespace lowerText;
         counts = keyword_counts b lowerText;
         totalMatches = fold (\<lambda>c a. a + c) (map snd counts) 0
     in if totalMatches = 0 then neutral_result
        else
         (let (dominant, maxCount) = dominant_of counts;
              score = (of_nat maxCount :: rat) / of_nat (length words);
              intensity = (if score > 2 / 100 then js ''high''
                           else if score > 1 / 100 then js ''medium'' else js ''low'')
          in \<lparr>emotion = JStr dominant, score = Fin score, intensity = JStr intensity,
              result_keywords = JArr [], suggestion = JStr [],
              source = JStr (js ''multilingual-heuristic'')\<rparr>))"

section \<open>Classification facade\<close>

text \<open>
  The optional capabilities of the browser. A promise that rejects, like a call that
  throws, is \<open>Inl\<close>; \<open>RejectedNullish\<close> is a rejection whose reason is \<open>null\<close> or
  \<open>undefined\<close>, on which reading \<open>error.message\<close> raises a TypeError. A session of the
  language model answers a prompt with a string or fails; a translator session likewise.
  \<open>create\<close> may also resolve to no session at all (\<open>Inr None\<close>).
\<close>

datatype rejection = Thrown js_error | RejectedNullish

type_synonym session = "jsstring \<Rightarrow> rejection + jsstring"

record 's capability =
  capabilities :: "rejection + jsstring"
  create :: "rejection + 's option"

record ai_env =
  languageModelSession :: "session option"
  languageModel :: "session capability option"
  translatorSession :: "session option"
  translator :: "session capability option"

text \<open>
  \<open>initLanguageModel\<close> and \<open>initTranslator\<close>: the session after initialisation, \<open>None\<close>
  when the capability is missing, reports \<open>available === "no"\<close>, or fails; every
  exception is caught inside.
\<close>

definition initLanguageModel :: "ai_env \<Rightarrow> session option" where
  "initLanguageModel env =
    (case languageModel env of
       None \<Rightarrow> None
     | Some lm \<Rightarrow>
        (case capabilities lm of
           Inl error \<Rightarrow> None
         | Inr available \<Rightarrow>
            if available = js ''no'' then None
            else (case create lm of Inl error \<Rightarrow> None | Inr s \<Rightarrow> s)))"

definition initTranslator :: "ai_env \<Rightarrow> session option" where
  "initTranslator env =
    (case translator env of
       None \<Rightarrow> None
     | Some tr \<Rightarrow>
        (case capabilities tr of
           Inl error \<Rightarrow> None
         | Inr available \<Rightarrow>
            if available = js ''no'' then None
            else (case create tr of Inl error \<Rightarrow> None | Inr s \<Rightarrow> s)))"

text \<open>\<open>String.prototype.trim\<close> removes white space and line terminators at both ends.\<close>

definition trim :: "jsstring \<Rightarrow> jsstring" where
  "trim s = rev (dropWhile is_white_space (rev (dropWhile is_white_space s)))"

definition detection_prompt :: "jsstring \<Rightarrow> jsstring" where
  \<open>detection_prompt text =
     js ''What language is this text written in? Respond with ONLY the language name in English (e.g., "English", "Spanish", "French", etc.): "''
     @ take 200 text @ js ''"''\<close>

text \<open>
  \<open>isEnglishText\<close>, called with a live session. The ratio of code units below 128 is
  \<open>NaN\<close> for the empty text, which passes no comparison. A failure of the prompt is
  caught and answered \<open>true\<close>.
\<close>

definition isEnglishText :: "builtins \<Rightarrow> session \<Rightarrow> jsstring \<Rightarrow> bool" where
  "isEnglishText b session text =
    (if text \<noteq> [] \<and>
        (of_nat (length (filter (\<lambda>c. c < 128) text)) :: rat) / of_nat (length text) > 9 / 10
     then True
     else (case session (detection_prompt text) of
             Inl error \<Rightarrow> True
           | Inr response \<Rightarrow>
              (let detectedLanguage = toLowerCase b (trim response)
               in sublist (js ''english'') detectedLanguage \<or> detectedLanguage = js ''en'')))"

text \<open>
  \<open>translateForAnalysis\<close>: the text itself unless a translator session exists and returns
  a non-empty, different string. Its \<open>catch\<close> block reads \<open>error.message\<close> and returns
  the text.
\<close>

definition translateForAnalysis ::
  "builtins \<Rightarrow> ai_env \<Rightarrow> session \<Rightarrow> jsstring \<Rightarrow> js_error + jsstring" where
  "translateForAnalysis b env session text =
    (if isEnglishText b session text then Inr text
     else
      (case (case translatorSession env of Some t \<Rightarrow> Some t | None \<Rightarrow> initTranslator env) of
         None \<Rightarrow> Inr text
       | Some t \<Rightarrow>
          (case t text of
             Inl RejectedNullish \<Rightarrow> Inl TypeError
           | Inl (Thrown error) \<Rightarrow> Inr text
           | Inr translatedText \<Rightarrow>
              if translatedText \<noteq> [] \<and> translatedText \<noteq> text then Inr translatedText
              else Inr text)))"

text \<open>
  \<open>response.match(/\{[\s\S]*\}/)\<close>: from the first opening brace to the last closing
  brace after it, or \<open>null\<close>.
\<close>

definition json_match :: "jsstring \<Rightarrow> jsstring option" where
  "json_match response =
    (let from_brace = dropWhile (\<lambda>c. c \<noteq> 123) response
     in if 125 \<in> set from_brace
        then Some (rev (dropWhile (\<lambda>c. c \<noteq> 125) (rev from_brace)))
        else None)"

text \<open>
  Reading one of the properties \<open>emotion\<close>, \<open>score\<close>, \<open>intensity\<close>, \<open>keywords\<close>,
  \<open>suggestion\<close> of a parsed value other than \<open>null\<close>: an object has its own member
  (the last one of that name, as \<open>JSON.parse\<close> keeps it), anything else has none.
\<close>

fun prop_of :: "json \<Rightarrow> jsstring \<Rightarrow> json option" where
  "prop_of (JObj kvs) k = map_of (rev kvs) k"
| "prop_of v k = None"

fun Math_max :: "jsnum \<Rightarrow> jsnum \<Rightarrow> jsnum" where
  "Math_max PInf y = PInf"
| "Math_max x PInf = PInf"
| "Math_max NInf y = y"
| "Math_max x NInf = x"
| "Math_max (Fin x) (Fin y) = Fin (max x y)"

fun Math_min :: "jsnum \<Rightarrow> jsnum \<Rightarrow> jsnum" where
  "Math_min NInf y = NInf"
| "Math_min x NInf = NInf"
| "Math_min PInf y = y"
| "Math_min x PInf = x"
| "Math_min (Fin x) (Fin y) = Fin (min x y)"

text \<open>
  The inner \<open>try\<close> block of \<open>analyzeEmotion\<close>: extract, parse, validate.
  \<^verbatim>\<open>
  const jsonMatch = response.match(/\{[\s\S]*\}/);
  if (jsonMatch) {
    const result = JSON.parse(jsonMatch[0]);
    if (result.emotion && typeof result.score === "number") {
      return { emotion: result.emotion,
               score: Math.min(Math.max(result.score, 0), 1),
               intensity: result.intensity || "medium",
               keywords: result.keywords || [],
               suggestion: result.suggestion || "",
               source: "chrome-ai" };
    }
  }
  \<close>
  \<open>Inr None\<close> is the block running to its end without returning.
\<close>

definition parse_response :: "builtins \<Rightarrow> jsstring \<Rightarrow> js_error + classification option" where
  "parse_response b response =
    (case json_match response of
       None \<Rightarrow> Inr None
     | Some jsonMatch \<Rightarrow>
        (case JSON_parse b jsonMatch of
           Inl error \<Rightarrow> Inl error
         | Inr result \<Rightarrow>
            if result = JNull then Inl TypeError
            else
             (case (prop_of result (js ''emotion''), prop_of result (js ''score'')) of
                (Some e, Some (JNum n)) \<Rightarrow>
                  if truthy e
                  then Inr (Some
                    \<lparr>emotion = e,
                     score = Math_min (Math_max n (Fin 0)) (Fin 1),
                     intensity = or_default (prop_of result (js ''intensity'')) (JStr (js ''medium'')),
                     result_keywords = or_default (prop_of result (js ''keywords'')) (JArr []),
                     suggestion = or_default (prop_of result (js ''suggestion'')) (JStr []),
                     source = JStr (js ''chrome-ai'')\<rparr>)
                  else Inr None
              | _ \<Rightarrow> Inr None)))"

definition analysis_prompt :: "jsstring \<Rightarrow> jsstring" where
  "analysis_prompt truncatedText =
     js ''Analyze the emotional tone of this text and respond with JSON only:''
     @ [10, 10, 34] @ truncatedText @ [34]"

text \<open>
  The outer \<open>try\<close> block of \<open>analyzeEmotion\<close>, and the function itself, whose \<open>catch\<close>
  answers every exception of the block with the heuristic result. \<open>active_session\<close> is
  the cached session, or else the one \<open>initLanguageModel\<close> creates:
  \<^verbatim>\<open>
  if (!languageModelSession) { await initLanguageModel(); }
  if (!languageModelSession) { return fallbackEmotionAnalysis(text); }
  \<close>
\<close>

definition active_session :: "ai_env \<Rightarrow> session option" where
  "active_session env =
    (case languageModelSession env of
       Some s \<Rightarrow> Some s
     | None \<Rightarrow> initLanguageModel env)"

definition analyze_body :: "builtins \<Rightarrow> ai_env \<Rightarrow> jsstring \<Rightarrow> js_error + classification" where
  "analyze_body b env text =
    (case active_session env of
       None \<Rightarrow> Inr (fallbackEmotionAnalysis b text)
     | Some session \<Rightarrow>
        (case translateForAnalysis b env session text of
           Inl error \<Rightarrow> Inl error
         | Inr textForAnalysis \<Rightarrow>
            (case session (analysis_prompt (take 5000 textForAnalysis)) of
               Inl RejectedNullish \<Rightarrow> Inl Rejected
             | Inl (Thrown error) \<Rightarrow> Inl error
             | Inr response \<Rightarrow>
                (case parse_response b response of
                   Inl parseError \<Rightarrow> Inr (fallbackEmotionAnalysis b text)
                 | Inr (Some r) \<Rightarrow> Inr r
                 | Inr None \<Rightarrow> Inr (fallbackEmotionAnalysis b text)))))"

definition analyzeEmotion :: "builtins \<Rightarrow> ai_env \<Rightarrow> jsstring \<Rightarrow> js_error + classification" where
  "analyzeEmotion b env text =
    (case analyze_body b env text of
       Inl error \<Rightarrow> Inr (fallbackEmotionAnalysis b text)
     | Inr r \<Rightarrow> Inr r)"

section \<open>Concrete built-ins and inputs for evaluation\<close>

text \<open>
  An instance of the built-ins that agrees with the engine on strings whose code units
  are below 256 (Basic Latin and Latin-1, the alphabet of the lexicon): lower-casing
  adds 32 to \<open>A-Z\<close> and to the Latin-1 capitals, case folding maps a letter to its
  capital. \<open>sample_parse\<close> knows the one response text used below.
\<close>

definition sample_response :: jsstring where
  \<open>sample_response = js ''Sure: {"emotion":"joy","score":0.5}''\<close>

definition sample_parse :: "jsstring \<Rightarrow> js_error + json" where
  \<open>sample_parse s =
     (if s = js ''{"emotion":"joy","score":0.5}''
      then Inr (JObj [(js ''emotion'', JStr (js ''joy'')), (js ''score'', JNum (Fin (1 / 2)))])
      else Inl SyntaxError)\<close>

definition latin1_lower :: "nat \<Rightarrow> nat" where
  "latin1_lower c =
     (if (65 \<le> c \<and> c \<le> 90) \<or> (192 \<le> c \<and> c \<le> 222 \<and> c \<noteq> 215) then c + 32 else c)"

definition latin1_fold :: "nat \<Rightarrow> nat" where
  "latin1_fold c =
     (if (97 \<le> c \<and> c \<le> 122) \<or> (224 \<le> c \<and> c \<le> 254 \<and> c \<noteq> 247) then c - 32
      else if c = 255 then 376
      else if c = 181 then 924
      else c)"

definition latin1_builtins :: builtins where
  "latin1_builtins =
    \<lparr>toLowerCase = map latin1_lower, canonicalize = latin1_fold, JSON_parse = sample_parse\<rparr>"

text \<open>No language model at all, and a language model that answers \<open>sample_response\<close>.\<close>

definition no_ai :: ai_env where
  "no_ai = \<lparr>languageModelSession = None, languageModel = None,
            translatorSession = None, translator = None\<rparr>"

definition sample_ai :: ai_env where
  "sample_ai = \<lparr>languageModelSession = Some (\<lambda>prompt. Inr sample_response),
                languageModel = None, translatorSession = None, translator = None\<rparr>"

section \<open>The specification's notions\<close>

text \<open>
  The definitions of this section follow the wording of the specification, not the code;
  the theorems compare the code with them.
\<close>

text \<open>The candidates of an emotion string, none when the lookup leaves the table.\<close>

definition candidates_of :: "jsstring \<Rightarrow> jsstring list" where
  "candidates_of e =
     (case suggested_for e of Candidates l \<Rightarrow> l | Inherited \<Rightarrow> [])"

text \<open>
  A response of the model is usable when a JSON payload can be extracted and parsed and
  the parsed value has a truthy \<open>emotion\<close> and a numeric \<open>score\<close>.
\<close>

definition is_number :: "json option \<Rightarrow> bool" where
  "is_number v = (case v of Some (JNum n) \<Rightarrow> True | _ \<Rightarrow> False)"

definition valid_response :: "builtins \<Rightarrow> jsstring \<Rightarrow> bool" where
  "valid_response b response =
    (case json_match response of
       None \<Rightarrow> False
     | Some m \<Rightarrow>
        (case JSON_parse b m of
           Inl error \<Rightarrow> False
         | Inr v \<Rightarrow> truthy_opt (prop_of v (js ''emotion'')) \<and> is_number (prop_of v (js ''score''))))"

text \<open>
  Quantities of the heuristic classifier, named for the theorems: the categories in
  enumeration order, all lexicon terms, the count of each category (the regular-expression
  matches of its terms, summed) and the length of \<open>words\<close>. The last two are the
  code's own \<open>match_count\<close> and \<open>split_whitespace\<close>, not notions of their own.
\<close>

definition heuristic_categories :: "jsstring list" where
  "heuristic_categories = [js ''positive'', js ''negative'', js ''anxiety'', js ''anger'']"

definition lexicon_terms :: "jsstring list" where
  "lexicon_terms = positive_keywords @ negative_keywords @ anxiety_keywords @ anger_keywords"

definition whole_word_counts :: "builtins \<Rightarrow> jsstring \<Rightarrow> nat list" where
  "whole_word_counts b text =
     map (\<lambda>kws. sum_list (map (\<lambda>keyword. match_count b keyword (toLowerCase b text)) kws))
       [positive_keywords, negative_keywords, anxiety_keywords, anger_keywords]"

definition token_count :: "builtins \<Rightarrow> jsstring \<Rightarrow> nat" where
  "token_count b text = length (split_whitespace (toLowerCase b text))"

text \<open>
  The overall-mood rule: positive when the positive records are more than half of the
  slice, else negative when the negative, anxiety and anger records together are more
  than half, else balanced.
\<close>

definition positive_total :: "emotion_record list \<Rightarrow> nat" where
  "positive_total xs = length (filter (\<lambda>r. rec_emotion r = js ''positive'') xs)"

definition negative_total :: "emotion_record list \<Rightarrow> nat" where
  "negative_total xs =
     length (filter (\<lambda>r. rec_emotion r \<in> {js ''negative'', js ''anxiety'', js ''anger''}) xs)"

definition mood_message :: "emotion_record list \<Rightarrow> jsstring" where
  "mood_message xs =
     (if 2 * positive_total xs > length xs then mostly_positive_message
      else if 2 * negative_total xs > length xs then significant_negative_message
      else balanced_message)"

section \<open>Concrete inputs\<close>

definition mindfulness_only :: config where
  "mindfulness_only =
     \<lparr>preferredExercises = Some [js ''breathing'' \<mapsto> JBool False,
        js ''affirmation'' \<mapsto> JBool False, js ''mindfulness'' \<mapsto> JBool True]\<rparr>"

definition affirmation_only :: config where
  "affirmation_only =
     \<lparr>preferredExercises = Some [js ''breathing'' \<mapsto> JBool False,
        js ''affirmation'' \<mapsto> JBool True, js ''mindfulness'' \<mapsto> JBool False]\<rparr>"

definition affirmation_disabled :: config where
  "affirmation_disabled =
     \<lparr>preferredExercises = Some [js ''breathing'' \<mapsto> JBool True,
        js ''affirmation'' \<mapsto> JBool False, js ''mindfulness'' \<mapsto> JBool True]\<rparr>"

text \<open>
  The Portuguese term of the positive lexicon written with an acute accent on its first
  letter (code unit 243, then \<open>timo\<close>), as a text of its own.
\<close>

definition otimo :: jsstring where
  "otimo = [243] @ js ''timo''"

definition sample_model_result :: classification where
  "sample_model_result =
    \<lparr>emotion = JStr (js ''joy''), score = Fin (1 / 2), intensity = JStr (js ''medium''),
     result_keywords = JArr [], suggestion = JStr [], source = JStr (js ''chrome-ai'')\<rparr>"

definition failing_ai :: ai_env where
  "failing_ai = \<lparr>languageModelSession = Some (\<lambda>prompt. Inl (Thrown Rejected)),
                 languageModel = None, translatorSession = None, translator = None\<rparr>"

definition garbled_ai :: ai_env where
  "garbled_ai = \<lparr>languageModelSession = Some (\<lambda>prompt. Inr (js ''I cannot help with that'')),
                 languageModel = None, translatorSession = None, translator = None\<rparr>"

definition sample_record :: "int \<Rightarrow> jsstring \<Rightarrow> emotion_record" where
  "sample_record t e =
    \<lparr>ts = t, url = None, title = None, rec_emotion = e, rec_score = JNull,
     rec_intensity = JStr (js ''low''), rec_keywords = JArr [], rec_suggestion = JStr [],
     rec_source = JStr (js ''multilingual-heuristic'')\<rparr>"

definition neutral_msg :: track_emotion_msg where
  "neutral_msg =
    \<lparr>msg_emotion = js ''neutral'', msg_score = Some (JNum (Fin 0)),
     msg_intensity = Some (JStr (js ''low'')), msg_keywords = Some (JArr []),
     msg_suggestion = Some (JStr []),
     msg_source = Some (JStr (js ''multilingual-heuristic''))\<rparr>"

definition no_tab :: message_sender where
  "no_tab = \<lparr>tab = None\<rparr>"

definition sample_storage :: storage where
  "sample_storage =
    \<lparr>emotionHistory = [sample_record 0 (js ''anger''), sample_record 100000000 (js ''positive'')],
     exerciseHistory = []\<rparr>"

definition sample_slice :: "emotion_record list" where
  "sample_slice =
     replicate 6 (sample_record 100000000 (js ''positive''))
     @ replicate 4 (sample_record 100000000 (js ''anxiety''))"

section \<open>Basic facts\<close>

lemma js_eq_iff [simp]: "js a = js b \<longleftrightarrow> a = b"
  unfolding js_def by (simp add: inj_map_eq_map inj_of_char)

lemma js_Nil_iff [simp]: "js a = [] \<longleftrightarrow> a = []" "[] = js a \<longleftrightarrow> a = []"
  unfolding js_def by auto

lemma js_Cons: "js (c # cs) = of_char c # js cs" "js [] = []"
  by (simp_all add: js_def)

section \<open>Recommendation engine: theorems\<close>

lemma suggested_for_category:
  "suggested_for (category_name cat) = Candidates (priority_table cat)"
  by (cases cat) (simp_all add: suggested_for_def recommendations_def)

lemma suggested_for_cases:
  "suggested_for e = Inherited \<or>
   suggested_for e = Candidates [js ''breathing'', js ''mindfulness''] \<or>
   suggested_for e = Candidates [js ''affirmation'', js ''mindfulness''] \<or>
   suggested_for e = Candidates [js ''affirmation''] \<or>
   suggested_for e = Candidates [js ''breathing'', js ''affirmation'', js ''mindfulness'']"
  by (simp add: suggested_for_def recommendations_def)

lemma ai_first_not_disabled:
  "getRecommendedExercise (category_name cat) \<lparr>preferredExercises = Some p\<rparr>
     = Inr (first_not_disabled p (priority_table cat))"
  by (cases cat)
     (simp_all add: getRecommendedExercise_def not_disabled_def suggested_for_def
        recommendations_def)

lemma ai_no_preferences:
  "getRecommendedExercise (category_name cat) \<lparr>preferredExercises = None\<rparr>
     = Inr (hd (priority_table cat))"
  by (cases cat)
     (simp_all add: getRecommendedExercise_def not_disabled_def suggested_for_def
        recommendations_def)

lemma bg_first_preferred:
  assumes "find (\<lambda>c. truthy_opt (p c)) (priority_table cat) = Some c"
  shows "bg_getRecommendedExercise (category_name cat) \<lparr>preferredExercises = Some p\<rparr> = Inr c"
  using assms
  by (cases cat)
     (auto simp add: bg_getRecommendedExercise_def preferred_list_def preferred_def
        suggested_for_def recommendations_def split: if_splits)

lemma bg_none_preferred:
  assumes "find (\<lambda>c. truthy_opt (p c)) (priority_table cat) = None"
  shows "bg_getRecommendedExercise (category_name cat) \<lparr>preferredExercises = Some p\<rparr>
     = Inr (case find (\<lambda>c. truthy_opt (p c))
                   [js ''breathing'', js ''affirmation'', js ''mindfulness''] of
              Some ex \<Rightarrow> ex
            | None \<Rightarrow> hd (priority_table cat))"
  using assms
  by (cases cat)
     (auto simp add: bg_getRecommendedExercise_def preferred_list_def preferred_def
        suggested_for_def recommendations_def split: if_splits)

text \<open>
  C4, as stated, fails on the background worker's engine: with every candidate of
  \<open>positive\<close> disabled and \<open>mindfulness\<close> enabled it answers \<open>mindfulness\<close>, where the
  rule of the claim gives the default \<open>breathing\<close>.
\<close>

theorem recommend_default_counterexample:
  "bg_getRecommendedExercise (js ''positive'') mindfulness_only = Inr (js ''mindfulness'')
   \<and> first_not_disabled (the (preferredExercises mindfulness_only)) (priority_table Positive)
       = js ''breathing''"
  by (simp add: bg_getRecommendedExercise_def preferred_list_def preferred_def truthy_opt_def
      suggested_for_def recommendations_def mindfulness_only_def)

text \<open>
  C4 (amended). For every emotion category and every preferences mapping,
  \<open>AIService.getRecommendedExercise\<close> goes through the fixed candidate list of the emotion
  in order and returns the first exercise id that the mapping does not set to \<open>false\<close>
  (an absent key counts as enabled), and the default \<open>breathing\<close> when every candidate
  is disabled; without a mapping it returns the first candidate. The background worker's
  engine returns the first candidate whose preference is truthy, when there is one;
  otherwise the first of \<open>breathing\<close>, \<open>affirmation\<close>, \<open>mindfulness\<close> whose preference
  is truthy, and the first candidate when none is.
\<close>

theorem recommend_first_not_disabled:
  "getRecommendedExercise (category_name cat) \<lparr>preferredExercises = Some p\<rparr>
     = Inr (first_not_disabled p (priority_table cat))
   \<and> getRecommendedExercise (category_name cat) \<lparr>preferredExercises = None\<rparr>
     = Inr (hd (priority_table cat))
   \<and> (\<forall>c. find (\<lambda>c. truthy_opt (p c)) (priority_table cat) = Some c \<longrightarrow>
        bg_getRecommendedExercise (category_name cat) \<lparr>preferredExercises = Some p\<rparr> = Inr c)
   \<and> (find (\<lambda>c. truthy_opt (p c)) (priority_table cat) = None \<longrightarrow>
        bg_getRecommendedExercise (category_name cat) \<lparr>preferredExercises = Some p\<rparr>
          = Inr (case find (\<lambda>c. truthy_opt (p c))
                        [js ''breathing'', js ''affirmation'', js ''mindfulness''] of
                   Some ex \<Rightarrow> ex
                 | None \<Rightarrow> hd (priority_table cat)))"
  using ai_first_not_disabled [of cat p] ai_no_preferences [of cat] bg_first_preferred [of p cat]
    bg_none_preferred [of p cat]
  by blast

text \<open>
  Witness: \<open>positive\<close> with \<open>{affirmation: false}\<close> yields \<open>breathing\<close> in
  \<open>AIService.getRecommendedExercise\<close>, and \<open>anxiety\<close> with only \<open>affirmation\<close>
  disabled yields \<open>breathing\<close> in the background worker.
\<close>

theorem recommend_first_not_disabled_witness:
  "getRecommendedExercise (js ''positive'')
       \<lparr>preferredExercises = Some [js ''affirmation'' \<mapsto> JBool False]\<rparr>
     = Inr (js ''breathing'')
   \<and> bg_getRecommendedExercise (js ''anxiety'') affirmation_disabled = Inr (js ''breathing'')"
proof -
  let ?p = "[js ''breathing'' \<mapsto> JBool True, js ''affirmation'' \<mapsto> JBool False,
             js ''mindfulness'' \<mapsto> JBool True]"
  have found: "find (\<lambda>c. truthy_opt (?p c)) (priority_table Anxiety) = Some (js ''breathing'')"
    by (simp add: truthy_opt_def)
  show ?thesis
    using recommend_first_not_disabled [of Positive "[js ''affirmation'' \<mapsto> JBool False]"]
      recommend_first_not_disabled [of Anxiety ?p] found
    by (simp add: affirmation_disabled_def)
qed

text \<open>
  C5, as stated, fails: for \<open>anxiety\<close> with only \<open>affirmation\<close> enabled,
  \<open>AIService.getRecommendedExercise\<close> answers the default \<open>breathing\<close> and the
  background worker answers \<open>affirmation\<close>, its first preferred exercise.
\<close>

theorem implementations_differ_counterexample:
  "getRecommendedExercise (js ''anxiety'') affirmation_only = Inr (js ''breathing'')
   \<and> bg_getRecommendedExercise (js ''anxiety'') affirmation_only = Inr (js ''affirmation'')"
  by (simp add: getRecommendedExercise_def not_disabled_def bg_getRecommendedExercise_def
      preferred_list_def preferred_def truthy_opt_def suggested_for_def recommendations_def
      affirmation_only_def)

lemma agree_absent:
  assumes "preferredExercises cfg = None"
  shows "getRecommendedExercise e cfg = bg_getRecommendedExercise e cfg"
  using suggested_for_cases [of e] assms
  by (auto simp add: getRecommendedExercise_def bg_getRecommendedExercise_def
      not_disabled_def preferred_list_def preferred_def)

lemma agree_boolean:
  assumes p: "preferredExercises cfg = Some p"
    and bools: "\<forall>c \<in> set (candidates_of e). \<exists>v. p c = Some (JBool v)"
    and some: "\<exists>c \<in> set (candidates_of e). p c = Some (JBool True)"
  shows "getRecommendedExercise e cfg = bg_getRecommendedExercise e cfg"
  using suggested_for_cases [of e] p bools some
  apply (elim disjE)
  subgoal by (simp add: candidates_of_def)
  subgoal by (auto simp add: candidates_of_def getRecommendedExercise_def
      bg_getRecommendedExercise_def not_disabled_def preferred_list_def preferred_def
      truthy_opt_def)
  subgoal by (auto simp add: candidates_of_def getRecommendedExercise_def
      bg_getRecommendedExercise_def not_disabled_def preferred_list_def preferred_def
      truthy_opt_def)
  subgoal by (auto simp add: candidates_of_def getRecommendedExercise_def
      bg_getRecommendedExercise_def not_disabled_def preferred_list_def preferred_def
      truthy_opt_def)
  subgoal by (auto simp add: candidates_of_def getRecommendedExercise_def
      bg_getRecommendedExercise_def not_disabled_def preferred_list_def preferred_def
      truthy_opt_def)
  done

lemma agree_inherited:
  assumes "suggested_for e = Inherited"
  shows "getRecommendedExercise e cfg = bg_getRecommendedExercise e cfg"
  using assms by (simp add: getRecommendedExercise_def bg_getRecommendedExercise_def)

text \<open>
  C5 (amended). The two implementations return the same result for an emotion string and
  a configuration in each of these cases: the emotion names an inherited property of the
  table (both raise a TypeError); \<open>preferredExercises\<close> is absent; or
  \<open>preferredExercises\<close> holds a boolean for every candidate of the emotion and
  \<open>true\<close> for at least one of them.
\<close>

theorem implementations_agree:
  assumes "suggested_for e = Inherited
     \<or> preferredExercises cfg = None
     \<or> (\<exists>p. preferredExercises cfg = Some p
           \<and> (\<forall>c \<in> set (candidates_of e). \<exists>v. p c = Some (JBool v))
           \<and> (\<exists>c \<in> set (candidates_of e). p c = Some (JBool True)))"
  shows "getRecommendedExercise e cfg = bg_getRecommendedExercise e cfg"
  using assms agree_absent agree_boolean agree_inherited by blast

text \<open>Witness: \<open>negative\<close> with \<open>affirmation\<close> disabled; both answer \<open>mindfulness\<close>.\<close>

theorem implementations_agree_witness:
  "getRecommendedExercise (js ''negative'') affirmation_disabled
     = bg_getRecommendedExercise (js ''negative'') affirmation_disabled
   \<and> getRecommendedExercise (js ''negative'') affirmation_disabled = Inr (js ''mindfulness'')"
proof -
  have cands: "candidates_of (js ''negative'') = [js ''affirmation'', js ''mindfulness'']"
    by (simp add: candidates_of_def suggested_for_def recommendations_def)
  have hyp: "suggested_for (js ''negative'') = Inherited
     \<or> preferredExercises affirmation_disabled = None
     \<or> (\<exists>p. preferredExercises affirmation_disabled = Some p
           \<and> (\<forall>c \<in> set (candidates_of (js ''negative'')). \<exists>v. p c = Some (JBool v))
           \<and> (\<exists>c \<in> set (candidates_of (js ''negative'')). p c = Some (JBool True)))"
    by (auto simp add: cands affirmation_disabled_def)
  have "getRecommendedExercise (js ''negative'') affirmation_disabled = Inr (js ''mindfulness'')"
    by (simp add: getRecommendedExercise_def not_disabled_def suggested_for_def
        recommendations_def affirmation_disabled_def)
  with implementations_agree [OF hyp] show ?thesis by simp
qed

section \<open>History store: theorems\<close>

lemma track_emotion_log:
  "emotionHistory (fst (track_emotion now1 now2 msg sndr cfg st)) =
     evict ts emotion_retention now2 (emotionHistory st @ [emotion_record_of now1 msg sndr])"
  by (simp add: track_emotion_def Let_def)

lemma track_exercise_log:
  "\<exists>entry. exerciseHistory (track_exercise now1 now2 msg st) =
     evict ex_ts exercise_retention now2 (exerciseHistory st @ [entry])"
  by (rule exI) (simp add: track_exercise_def Let_def)

lemma ts_emotion_record_of [simp]: "ts (emotion_record_of now msg sndr) = now"
  by (simp add: emotion_record_of_def)

lemma evict_twice: "evict stamp w now (evict stamp w now S) = evict stamp w now S"
  by (simp add: evict_def)

text \<open>
  C7. Eviction is idempotent: for every log, every retention window and a fixed value of
  \<open>now\<close>, filtering twice gives the same log as filtering once; in particular the log
  that either handler has written is unchanged by a further eviction at the same time.
\<close>

theorem evict_idempotent:
  "evict stamp retentionWindowMs now (evict stamp retentionWindowMs now S)
     = evict stamp retentionWindowMs now S
   \<and> evict ts emotion_retention now2
        (emotionHistory (fst (track_emotion now1 now2 msg sndr cfg st)))
     = emotionHistory (fst (track_emotion now1 now2 msg sndr cfg st))
   \<and> evict ex_ts exercise_retention now2 (exerciseHistory (track_exercise now1 now2 xmsg st))
     = exerciseHistory (track_exercise now1 now2 xmsg st)"
proof -
  obtain entry where "exerciseHistory (track_exercise now1 now2 xmsg st) =
      evict ex_ts exercise_retention now2 (exerciseHistory st @ [entry])"
    using track_exercise_log by blast
  then show ?thesis
    by (simp add: track_emotion_log evict_twice)
qed

text \<open>Witness: a log with one stale and one fresh record, evicted at 700000000 ms.\<close>

theorem evict_idempotent_witness:
  "evict ts emotion_retention 700000000
      (evict ts emotion_retention 700000000 (emotionHistory sample_storage))
     = [sample_record 100000000 (js ''positive'')]"
proof -
  have "evict ts emotion_retention 700000000 (emotionHistory sample_storage)
      = [sample_record 100000000 (js ''positive'')]"
    by (simp add: evict_def emotion_retention_def sample_storage_def sample_record_def)
  with evict_idempotent [of ts emotion_retention 700000000 "emotionHistory sample_storage"]
  show ?thesis by simp
qed

text \<open>
  C8, as stated, fails for some log states and clock readings. A record stamped at
  1700000000000 ms whose eviction runs at 1700700000000 ms, more than seven days later, is
  evicted by its own append and missing from the query. And a message appended twice
  within one millisecond leaves two equal records, so the query holds the record twice.
\<close>

theorem append_roundtrip_counterexample:
  "emotion_record_of 1700000000000 neutral_msg no_tab
     \<notin> set (queryWindow 0 (emotionHistory
         (fst (track_emotion 1700000000000 1700700000000 neutral_msg no_tab mindfulness_only
            sample_storage))))
   \<and> count_list
       (queryWindow 0 (emotionHistory
         (fst (track_emotion 1700000000000 1700000000000 neutral_msg no_tab mindfulness_only
           (fst (track_emotion 1700000000000 1700000000000 neutral_msg no_tab mindfulness_only
              sample_storage))))))
       (emotion_record_of 1700000000000 neutral_msg no_tab) = 2"
  by (simp add: track_emotion_log queryWindow_def evict_def emotion_retention_def
      sample_storage_def sample_record_def)

text \<open>
  C8 (amended). Round trip through the history store. Let the append path stamp the record at
  \<open>now1\<close> and evict at \<open>now2\<close>, with \<open>now1\<close> a time since the epoch and the two
  readings of the clock less than the retention window apart. Then \<open>queryWindow 0\<close>
  returns the surviving older records, in their stored order, followed by the new record:
  the new record is the last element, the older part is a subsequence of the old log, and
  the append adds exactly one occurrence of the record, which is then its only occurrence
  unless the old log already held an equal record.
\<close>

theorem append_query_roundtrip:
  assumes "0 \<le> now1" and "now2 - emotion_retention \<le> now1"
  shows "queryWindow 0 (emotionHistory (fst (track_emotion now1 now2 msg sndr cfg st)))
       = filter (\<lambda>r. 0 \<le> ts r \<and> now2 - emotion_retention \<le> ts r) (emotionHistory st)
         @ [emotion_record_of now1 msg sndr]
     \<and> subseq (filter (\<lambda>r. 0 \<le> ts r \<and> now2 - emotion_retention \<le> ts r) (emotionHistory st))
         (emotionHistory st)
     \<and> last (queryWindow 0 (emotionHistory (fst (track_emotion now1 now2 msg sndr cfg st))))
       = emotion_record_of now1 msg sndr
     \<and> count_list (queryWindow 0 (emotionHistory (fst (track_emotion now1 now2 msg sndr cfg st))))
           (emotion_record_of now1 msg sndr)
       = count_list (filter (\<lambda>r. 0 \<le> ts r \<and> now2 - emotion_retention \<le> ts r) (emotionHistory st))
           (emotion_record_of now1 msg sndr) + 1
     \<and> (emotion_record_of now1 msg sndr \<notin> set (emotionHistory st) \<longrightarrow>
         count_list (queryWindow 0 (emotionHistory (fst (track_emotion now1 now2 msg sndr cfg st))))
           (emotion_record_of now1 msg sndr) = 1)"
proof -
  let ?old = "filter (\<lambda>r. 0 \<le> ts r \<and> now2 - emotion_retention \<le> ts r) (emotionHistory st)"
  let ?new = "emotion_record_of now1 msg sndr"
  have eq: "queryWindow 0 (emotionHistory (fst (track_emotion now1 now2 msg sndr cfg st)))
      = ?old @ [?new]"
    using assms by (auto simp add: track_emotion_log queryWindow_def evict_def conj_commute)
  have sub: "subseq ?old (emotionHistory st)"
    by simp
  have once: "count_list (?old @ [?new]) ?new = 1" if "?new \<notin> set (emotionHistory st)"
  proof -
    from that have "?new \<notin> set ?old" by simp
    then have "count_list ?old ?new = 0" by (simp add: count_list_0_iff)
    then show ?thesis by simp
  qed
  show ?thesis
    using eq sub once by simp
qed

text \<open>
  Witness: a record appended at 700000000 ms to a log holding a stale record (time 0) and
  a fresh one; the query returns the fresh record and then the new one.
\<close>

theorem append_query_roundtrip_witness:
  "queryWindow 0
     (emotionHistory (fst (track_emotion 700000000 700000000 neutral_msg no_tab mindfulness_only
        sample_storage)))
   = [sample_record 100000000 (js ''positive''), emotion_record_of 700000000 neutral_msg no_tab]"
proof -
  have h1: "(0::int) \<le> 700000000" by simp
  have h2: "(700000000::int) - emotion_retention \<le> 700000000"
    by (simp add: emotion_retention_def)
  have old: "filter (\<lambda>r. 0 \<le> ts r \<and> 700000000 - emotion_retention \<le> ts r)
      (emotionHistory sample_storage) = [sample_record 100000000 (js ''positive'')]"
    by (simp add: emotion_retention_def sample_storage_def sample_record_def)
  from append_query_roundtrip [OF h1 h2, of neutral_msg no_tab mindfulness_only sample_storage]
  show ?thesis by (simp add: old)
qed

text \<open>
  C10. The score that the \<open>TRACK_EMOTION\<close> handler persists is the message's score when
  that value is truthy and \<open>null\<close> otherwise; a score of exactly 0, the score of every
  zero-match neutral result, is persisted as \<open>null\<close>. The record so built is the one
  the handler appends to the stored log.
\<close>

theorem persisted_score_truthy_or_null:
  "rec_score (emotion_record_of now1 msg sndr)
     = (case msg_score msg of None \<Rightarrow> JNull | Some v \<Rightarrow> if truthy v then v else JNull)
   \<and> (msg_score msg = Some (JNum (Fin 0)) \<longrightarrow> rec_score (emotion_record_of now1 msg sndr) = JNull)
   \<and> (msg_score msg = Some (JNum (score neutral_result)) \<longrightarrow>
        rec_score (emotion_record_of now1 msg sndr) = JNull)
   \<and> (now2 - emotion_retention \<le> now1 \<longrightarrow>
        last (emotionHistory (fst (track_emotion now1 now2 msg sndr cfg st)))
          = emotion_record_of now1 msg sndr)"
  by (simp add: emotion_record_of_def or_default_def neutral_result_def track_emotion_def
      Let_def evict_def split: option.split)

text \<open>Witness: the message of a zero-match neutral result, whose score is 0.\<close>

theorem persisted_score_truthy_or_null_witness:
  "msg_score neutral_msg = Some (JNum (Fin 0))
   \<and> rec_score (emotion_record_of 700000000 neutral_msg no_tab) = JNull
   \<and> rec_score (last (emotionHistory
        (fst (track_emotion 700000000 700000000 neutral_msg no_tab mindfulness_only sample_storage))))
      = JNull"
proof -
  have h: "msg_score neutral_msg = Some (JNum (Fin 0))"
    by (simp add: neutral_msg_def)
  have h2: "(700000000::int) - emotion_retention \<le> 700000000"
    by (simp add: emotion_retention_def)
  from persisted_score_truthy_or_null
    [of 700000000 neutral_msg no_tab 700000000 mindfulness_only sample_storage] h h2
  show ?thesis by simp
qed

section \<open>Insight generator: theorems\<close>

lemma count_emotions_fold:
  "or_zero (fold (\<lambda>r acc. acc(rec_emotion r \<mapsto> or_zero (acc (rec_emotion r)) + 1)) xs m k)
     = or_zero (m k) + length (filter (\<lambda>r. rec_emotion r = k) xs)"
  by (induction xs arbitrary: m) (auto simp add: or_zero_def)

lemma count_emotions_eq:
  "or_zero (count_emotions xs k) = length (filter (\<lambda>r. rec_emotion r = k) xs)"
  unfolding count_emotions_def using count_emotions_fold [of xs Map.empty k]
  by (simp add: or_zero_def)

lemma negative_total_split:
  "negative_total xs = length (filter (\<lambda>r. rec_emotion r = js ''negative'') xs)
     + length (filter (\<lambda>r. rec_emotion r = js ''anxiety'') xs)
     + length (filter (\<lambda>r. rec_emotion r = js ''anger'') xs)"
  unfolding negative_total_def by (induction xs) auto

lemma more_than_half_iff: "((of_nat p :: rat) > of_nat t * (1 / 2)) \<longleftrightarrow> 2 * p > t"
proof -
  have "((of_nat p :: rat) > of_nat t * (1 / 2)) \<longleftrightarrow> (of_nat (2 * p) :: rat) > of_nat t"
    by (simp add: field_simps)
  also have "\<dots> \<longleftrightarrow> 2 * p > t" by (simp only: of_nat_less_iff)
  finally show ?thesis .
qed

lemma mood_message_first:
  assumes "5 \<le> length xs"
  shows "\<exists>rest. generateInsights xs ex = InsightItems (mood_message xs # rest)"
proof -
  have pc: "or_zero (count_emotions xs (js ''positive'')) = positive_total xs"
    by (simp add: count_emotions_eq positive_total_def)
  have nc: "or_zero (count_emotions xs (js ''negative''))
              + or_zero (count_emotions xs (js ''anxiety''))
              + or_zero (count_emotions xs (js ''anger'')) = negative_total xs"
    by (simp add: count_emotions_eq negative_total_split)
  from assms have big: "\<not> length xs < 5" by simp
  show ?thesis
    unfolding generateInsights_def Let_def pc nc more_than_half_iff mood_message_def
    using big by auto
qed

lemma mood_messages_distinct:
  "mostly_positive_message \<noteq> balanced_message"
  "mostly_positive_message \<noteq> significant_negative_message"
  by (simp_all add: mostly_positive_message_def balanced_message_def
      significant_negative_message_def)

text \<open>
  C9. For every slice of at least five emotion records the first insight is the
  overall-mood message: the positive message if the positive records are more than half
  of the slice, else the negative message if the negative, anxiety and anger records
  together are more than half, else the balanced message. A slice of 10 records with 6
  positive ones yields the positive message; a slice that is positive to exactly one half
  does not.
\<close>

theorem mood_insight_first:
  assumes "5 \<le> length xs"
  shows "(\<exists>rest. generateInsights xs ex = InsightItems (mood_message xs # rest))
     \<and> (length xs = 10 \<and> positive_total xs = 6 \<longrightarrow>
          (\<exists>rest. generateInsights xs ex = InsightItems (mostly_positive_message # rest)))
     \<and> (2 * positive_total xs = length xs \<longrightarrow>
          \<not> (\<exists>rest. generateInsights xs ex = InsightItems (mostly_positive_message # rest)))"
proof -
  from mood_message_first [OF assms]
  obtain rest where g: "generateInsights xs ex = InsightItems (mood_message xs # rest)"
    by blast
  have six: "mood_message xs = mostly_positive_message"
    if "length xs = 10 \<and> positive_total xs = 6"
    using that by (simp add: mood_message_def)
  have half: "mood_message xs \<noteq> mostly_positive_message"
    if "2 * positive_total xs = length xs"
    using that mood_messages_distinct by (simp add: mood_message_def)
  show ?thesis
    using g six half by auto
qed

text \<open>
  Witness: ten records, six of them positive and four anxious; the insights start with
  the positive message.
\<close>

theorem mood_insight_first_witness:
  "5 \<le> length sample_slice \<and> positive_total sample_slice = 6
   \<and> (\<exists>rest. generateInsights sample_slice [] = InsightItems (mostly_positive_message # rest))"
proof -
  have len: "length sample_slice = 10"
    by (simp add: sample_slice_def)
  have pos: "positive_total sample_slice = 6"
    by (simp add: sample_slice_def positive_total_def sample_record_def)
  have h: "5 \<le> length sample_slice"
    using len by simp
  from mood_insight_first [OF h, of "[]"] len pos
  show ?thesis by simp
qed

section \<open>Heuristic classifier: theorems\<close>

lemma fold_add_sum: "fold (\<lambda>x n. n + f x) xs (a::nat) = a + sum_list (map f xs)"
  by (induction xs arbitrary: a) (auto simp add: add.assoc)

lemma fold_plus_sum: "fold (\<lambda>c a. a + c) xs (a::nat) = a + sum_list xs"
  by (induction xs arbitrary: a) auto

lemma category_count_sum:
  "category_count b s kws = sum_list (map (\<lambda>keyword. match_count b keyword s) kws)"
  by (simp add: category_count_def fold_add_sum)

lemma keyword_counts_eq:
  "keyword_counts b (toLowerCase b text) = zip heuristic_categories (whole_word_counts b text)"
  by (simp add: keyword_counts_def emotionKeywords_def heuristic_categories_def
      whole_word_counts_def category_count_sum)

lemma length_whole_word_counts [simp]: "length (whole_word_counts b text) = 4"
  by (simp add: whole_word_counts_def)

lemma length_heuristic_categories [simp]: "length heuristic_categories = 4"
  by (simp add: heuristic_categories_def)

lemma snd_counts:
  "map snd (zip heuristic_categories (whole_word_counts b text)) = whole_word_counts b text"
  by (simp add: map_snd_zip)

lemma no_match_iff:
  "sum_list (whole_word_counts b text) = 0 \<longleftrightarrow>
     (\<forall>keyword \<in> set lexicon_terms. match_count b keyword (toLowerCase b text) = 0)"
  by (auto simp add: whole_word_counts_def lexicon_terms_def)

text \<open>The classifier, with its two loops replaced by the sums they compute.\<close>

lemma fallback_unfold:
  "fallbackEmotionAnalysis b text =
    (if sum_list (whole_word_counts b text) = 0 then neutral_result
     else
      (case dominant_of (zip heuristic_categories (whole_word_counts b text)) of
         (dominant, maxCount) \<Rightarrow>
           \<lparr>emotion = JStr dominant,
            score = Fin ((of_nat maxCount :: rat) / of_nat (token_count b text)),
            intensity = JStr
              (if (of_nat maxCount :: rat) / of_nat (token_count b text) > 2 / 100 then js ''high''
               else if (of_nat maxCount :: rat) / of_nat (token_count b text) > 1 / 100
               then js ''medium'' else js ''low''),
            result_keywords = JArr [], suggestion = JStr [],
            source = JStr (js ''multilingual-heuristic'')\<rparr>))"
  unfolding fallbackEmotionAnalysis_def Let_def keyword_counts_eq snd_counts fold_plus_sum
    token_count_def
  by (simp only: add_0)

lemma fallback_no_match:
  assumes "sum_list (whole_word_counts b text) = 0"
  shows "fallbackEmotionAnalysis b text = neutral_result"
  using assms by (simp add: fallback_unfold del: sum_list_eq_0_iff)

text \<open>
  The loop that picks the dominant category: either no entry exceeds the initial maximum
  and the initial pair is kept, or the result is the first entry that attains the
  greatest count.
\<close>

lemma dominant_step_apply:
  "dominant_step x (d, m) = (if m < snd x then x else (d, m))"
  by (simp add: dominant_step_def)

lemma dominant_of_invariant:
  "(fold dominant_step xs (d, m) = (d, m) \<and> (\<forall>j < length xs. snd (xs ! j) \<le> m)) \<or>
   (\<exists>i < length xs. fold dominant_step xs (d, m) = xs ! i \<and> m < snd (xs ! i)
      \<and> (\<forall>j < i. snd (xs ! j) < snd (xs ! i)) \<and> (\<forall>j < length xs. snd (xs ! j) \<le> snd (xs ! i)))"
proof (induction xs rule: rev_induct)
  case Nil
  then show ?case by simp
next
  case (snoc x xs)
  have step: "fold dominant_step (xs @ [x]) (d, m) = dominant_step x (fold dominant_step xs (d, m))"
    by simp
  from snoc.IH show ?case
  proof (elim disjE conjE exE)
    assume same: "fold dominant_step xs (d, m) = (d, m)"
      and le: "\<forall>j < length xs. snd (xs ! j) \<le> m"
    show ?thesis
    proof (cases "m < snd x")
      case True
      have "fold dominant_step (xs @ [x]) (d, m) = (xs @ [x]) ! length xs"
        unfolding step same dominant_step_apply using True by simp
      moreover have "\<forall>j < length xs. snd ((xs @ [x]) ! j) < snd x"
        using le True by (auto simp add: nth_append intro: le_less_trans)
      moreover have "\<forall>j < length (xs @ [x]). snd ((xs @ [x]) ! j) \<le> snd x"
        using le True by (auto simp add: nth_append less_Suc_eq intro: order_trans less_imp_le)
      ultimately show ?thesis using True
        by (intro disjI2 exI [of _ "length xs"]) simp
    next
      case False
      have "fold dominant_step (xs @ [x]) (d, m) = (d, m)"
        unfolding step same dominant_step_apply using False by simp
      moreover have "\<forall>j < length (xs @ [x]). snd ((xs @ [x]) ! j) \<le> m"
        using le False by (auto simp add: nth_append less_Suc_eq)
      ultimately show ?thesis by (intro disjI1 conjI)
    qed
  next
    fix i
    assume i: "i < length xs" and best: "fold dominant_step xs (d, m) = xs ! i"
      and gt: "m < snd (xs ! i)"
      and before: "\<forall>j < i. snd (xs ! j) < snd (xs ! i)"
      and all: "\<forall>j < length xs. snd (xs ! j) \<le> snd (xs ! i)"
    have step': "fold dominant_step (xs @ [x]) (d, m)
        = (if snd (xs ! i) < snd x then x else xs ! i)"
      unfolding step best by (cases "xs ! i") (simp add: dominant_step_apply)
    show ?thesis
    proof (cases "snd (xs ! i) < snd x")
      case True
      have "fold dominant_step (xs @ [x]) (d, m) = (xs @ [x]) ! length xs"
        unfolding step' using True by simp
      moreover have "\<forall>j < length xs. snd ((xs @ [x]) ! j) < snd x"
        using all True by (auto simp add: nth_append intro: le_less_trans)
      moreover have "\<forall>j < length (xs @ [x]). snd ((xs @ [x]) ! j) \<le> snd x"
        using all True by (auto simp add: nth_append less_Suc_eq intro: order_trans less_imp_le)
      moreover have "m < snd x" using gt True by simp
      ultimately show ?thesis
        by (intro disjI2 exI [of _ "length xs"]) simp
    next
      case False
      have "fold dominant_step (xs @ [x]) (d, m) = (xs @ [x]) ! i"
        unfolding step' using False i by (simp add: nth_append)
      moreover have "\<forall>j < i. snd ((xs @ [x]) ! j) < snd ((xs @ [x]) ! i)"
        using before i by (simp add: nth_append)
      moreover have "\<forall>j < length (xs @ [x]). snd ((xs @ [x]) ! j) \<le> snd ((xs @ [x]) ! i)"
        using all False i by (auto simp add: nth_append less_Suc_eq)
      moreover have "m < snd ((xs @ [x]) ! i)" using gt i by (simp add: nth_append)
      ultimately show ?thesis using i
        by (intro disjI2 exI [of _ i]) simp
    qed
  qed
qed

lemma dominant_of_first_max:
  assumes "length names = length counts" and "sum_list counts \<noteq> 0"
  shows "\<exists>i < length counts. dominant_of (zip names counts) = (names ! i, counts ! i)
      \<and> 0 < counts ! i
      \<and> (\<forall>j < i. counts ! j < counts ! i) \<and> (\<forall>j < length counts. counts ! j \<le> counts ! i)"
proof -
  let ?xs = "zip names counts"
  have len: "length ?xs = length counts" using assms(1) by simp
  have nth: "\<And>j. j < length counts \<Longrightarrow> ?xs ! j = (names ! j, counts ! j)"
    using assms(1) by simp
  from dominant_of_invariant [of ?xs "js ''neutral''" 0]
  show ?thesis
  proof (elim disjE conjE exE)
    assume "\<forall>j < length ?xs. snd (?xs ! j) \<le> 0"
    then have "\<forall>j < length counts. counts ! j = 0"
      using len nth by simp
    then have "\<forall>c \<in> set counts. c = 0"
      by (auto simp add: in_set_conv_nth)
    then have "sum_list counts = 0" by simp
    with assms(2) show ?thesis by simp
  next
    fix i
    assume "i < length ?xs" "fold dominant_step ?xs (js ''neutral'', 0) = ?xs ! i"
      "0 < snd (?xs ! i)" "\<forall>j < i. snd (?xs ! j) < snd (?xs ! i)"
      "\<forall>j < length ?xs. snd (?xs ! j) \<le> snd (?xs ! i)"
    then show ?thesis
      using len nth by (intro exI [of _ i]) (simp add: dominant_of_def)
  qed
qed

lemma split_whitespace_nonempty: "split_whitespace s \<noteq> []"
  by (subst split_whitespace.simps) simp

lemma token_count_positive: "0 < token_count b text"
  by (simp add: token_count_def split_whitespace_nonempty)


text \<open>Rules for evaluating the classifier on a concrete text.\<close>

lemma matches_at_if:
  "matches_at b keyword s i =
     (if is_boundary s i then
        (if i + length keyword \<le> length s then
           (if map (canonicalize b) (take (length keyword) (drop i s)) = map (canonicalize b) keyword
            then is_boundary s (i + length keyword) else False)
         else False)
      else False)"
  by (simp add: matches_at_def)

lemma canonicalize_latin1 [simp]: "canonicalize latin1_builtins = latin1_fold"
  by (simp add: latin1_builtins_def)

lemma toLowerCase_latin1 [simp]: "toLowerCase latin1_builtins = map latin1_lower"
  by (simp add: latin1_builtins_def)

lemma JSON_parse_latin1 [simp]: "JSON_parse latin1_builtins = sample_parse"
  by (simp add: latin1_builtins_def)

lemmas match_eval =
  match_count_def count_from.simps matches_at_if is_boundary_def is_word_char_def
  latin1_fold_def latin1_lower_def js_Cons

lemmas lexicon_defs =
  positive_keywords_def negative_keywords_def anxiety_keywords_def anger_keywords_def

lemma counts_sad_joy: "whole_word_counts latin1_builtins (js ''sad joy'') = [1, 1, 0, 0]"
  by (simp add: whole_word_counts_def lexicon_defs match_eval)

lemma tokens_sad_joy: "token_count latin1_builtins (js ''sad joy'') = 2"
  by (simp add: token_count_def split_whitespace.simps is_white_space_def latin1_lower_def js_Cons)

lemma counts_stress: "whole_word_counts latin1_builtins (js ''stress'') = [0, 0, 3, 0]"
  by (simp add: whole_word_counts_def lexicon_defs match_eval)

lemma tokens_stress: "token_count latin1_builtins (js ''stress'') = 1"
  by (simp add: token_count_def split_whitespace.simps is_white_space_def latin1_lower_def js_Cons)


text \<open>
  The selection rule on the counts that the code computes: when some regular expression
  of the lexicon matches, the result is a category of the enumeration positive, negative,
  anxiety, anger whose count is greatest and strictly greater than the count of every
  category before it (so a tie goes to the category seen first); the score is that count
  over the length of \<open>words\<close>, and the intensity is \<open>high\<close> above 0.02, \<open>medium\<close>
  above 0.01 and \<open>low\<close> otherwise.
\<close>

lemma dominant_category_of_counts:
  assumes "\<exists>keyword \<in> set lexicon_terms. 0 < match_count b keyword (toLowerCase b text)"
  shows "\<exists>i < length heuristic_categories.
      emotion (fallbackEmotionAnalysis b text) = JStr (heuristic_categories ! i)
    \<and> (\<forall>j < i. whole_word_counts b text ! j < whole_word_counts b text ! i)
    \<and> (\<forall>j < length heuristic_categories.
          whole_word_counts b text ! j \<le> whole_word_counts b text ! i)
    \<and> score (fallbackEmotionAnalysis b text)
        = Fin (of_nat (whole_word_counts b text ! i) / of_nat (token_count b text))
    \<and> intensity (fallbackEmotionAnalysis b text)
        = JStr (if (of_nat (whole_word_counts b text ! i) :: rat) / of_nat (token_count b text)
                     > 2 / 100
                then js ''high''
                else if (of_nat (whole_word_counts b text ! i) :: rat) / of_nat (token_count b text)
                     > 1 / 100
                then js ''medium'' else js ''low'')"
proof -
  from assms have ne: "sum_list (whole_word_counts b text) \<noteq> 0"
    using no_match_iff [of b "text"] by auto
  from dominant_of_first_max [of heuristic_categories "whole_word_counts b text", OF _ ne]
  obtain i where i: "i < 4"
    and best: "dominant_of (zip heuristic_categories (whole_word_counts b text))
        = (heuristic_categories ! i, whole_word_counts b text ! i)"
    and before: "\<forall>j < i. whole_word_counts b text ! j < whole_word_counts b text ! i"
    and all: "\<forall>j < 4. whole_word_counts b text ! j \<le> whole_word_counts b text ! i"
    by auto
  show ?thesis
    using i before all
    by (intro exI [of _ i]) (simp add: fallback_unfold best ne del: sum_list_eq_0_iff)
qed

text \<open>
  In \<open>sad joy\<close> the negative and the positive category have one match each; the rule
  leaves only the first of them, \<open>positive\<close>, with score 1/2 and intensity \<open>high\<close>.
\<close>

lemma dominant_category_sad_joy:
  "emotion (fallbackEmotionAnalysis latin1_builtins (js ''sad joy'')) = JStr (js ''positive'')
   \<and> score (fallbackEmotionAnalysis latin1_builtins (js ''sad joy'')) = Fin (1 / 2)
   \<and> intensity (fallbackEmotionAnalysis latin1_builtins (js ''sad joy'')) = JStr (js ''high'')"
proof -
  let ?c = "whole_word_counts latin1_builtins (js ''sad joy'')"
  have "sum_list ?c \<noteq> 0"
    by (simp add: counts_sad_joy)
  then have hyp: "\<exists>keyword \<in> set lexicon_terms.
      0 < match_count latin1_builtins keyword (toLowerCase latin1_builtins (js ''sad joy''))"
    using no_match_iff [of latin1_builtins "js ''sad joy''"] by auto
  from dominant_category_of_counts [OF hyp]
  obtain i where i: "i < 4"
    and res: "emotion (fallbackEmotionAnalysis latin1_builtins (js ''sad joy''))
        = JStr (heuristic_categories ! i)"
      "score (fallbackEmotionAnalysis latin1_builtins (js ''sad joy''))
        = Fin (of_nat (?c ! i) / of_nat (token_count latin1_builtins (js ''sad joy'')))"
      "intensity (fallbackEmotionAnalysis latin1_builtins (js ''sad joy''))
        = JStr (if (of_nat (?c ! i) :: rat) / of_nat (token_count latin1_builtins (js ''sad joy''))
                     > 2 / 100
                then js ''high''
                else if (of_nat (?c ! i) :: rat)
                          / of_nat (token_count latin1_builtins (js ''sad joy'')) > 1 / 100
                then js ''medium'' else js ''low'')"
    and before: "\<forall>j < i. ?c ! j < ?c ! i"
    and all: "\<forall>j < 4. ?c ! j \<le> ?c ! i"
    by auto
  from i have "i = 0 \<or> i = 1 \<or> i = 2 \<or> i = 3" by arith
  then have "i = 0"
  proof (elim disjE)
    assume "i = 1"
    with before have "?c ! 0 < ?c ! 1" by simp
    then show ?thesis by (simp add: counts_sad_joy)
  next
    assume "i = 2"
    with all have "?c ! 0 \<le> ?c ! 2" by simp
    then show ?thesis by (simp add: counts_sad_joy)
  next
    assume "i = 3"
    with all have "?c ! 0 \<le> ?c ! 3" by simp
    then show ?thesis by (simp add: counts_sad_joy)
  qed
  with res show ?thesis
    by (simp add: counts_sad_joy tokens_sad_joy heuristic_categories_def)
qed

text \<open>
  What the code counts is not always a whole word, and what it divides by is not always
  the number of words. A term that begins with a letter outside \<open>[A-Za-z0-9_]\<close> is
  found only when glued to a word character; in \<open>unhappy\<close> the term \<open>happy\<close> is not
  found; and white space around a text adds empty strings to \<open>words\<close>.
\<close>

lemma counts_otimo: "whole_word_counts latin1_builtins otimo = [0, 0, 0, 0]"
  by (simp add: whole_word_counts_def lexicon_defs match_eval otimo_def)

lemma counts_glued_otimo: "whole_word_counts latin1_builtins (js ''x'' @ otimo) = [1, 0, 0, 0]"
  by (simp add: whole_word_counts_def lexicon_defs match_eval otimo_def)

lemma counts_unhappy: "whole_word_counts latin1_builtins (js ''unhappy'') = [0, 1, 0, 0]"
  by (simp add: whole_word_counts_def lexicon_defs match_eval)

lemma tokens_padded: "token_count latin1_builtins (js '' happy '') = 3"
  by (simp add: token_count_def split_whitespace.simps is_white_space_def latin1_lower_def js_Cons)

text \<open>
  C2 requires, for every text in which a lexicon term matches, the category with the
  greatest whole-word match count, with a score of that count over the number of tokens.
  The code does not deliver it for the text that consists of the positive lexicon's
  Portuguese term \<open>otimo\<close> (first letter with an acute accent): the term is in the
  lexicon and is the whole text, yet no regular expression matches, and the classifier
  answers \<open>neutral\<close> with score 0 where the claim requires \<open>positive\<close>.
\<close>

theorem heuristic_misses_standalone_term:
  "otimo \<in> set positive_keywords
   \<and> toLowerCase latin1_builtins otimo = otimo
   \<and> whole_word_counts latin1_builtins otimo = [0, 0, 0, 0]
   \<and> fallbackEmotionAnalysis latin1_builtins otimo = neutral_result
   \<and> emotion neutral_result = JStr (js ''neutral'')
   \<and> score neutral_result = Fin 0"
proof -
  have mem: "otimo \<in> set positive_keywords"
    by (simp add: positive_keywords_def otimo_def)
  have lower: "toLowerCase latin1_builtins otimo = otimo"
    by (simp add: otimo_def latin1_lower_def js_Cons)
  have "sum_list (whole_word_counts latin1_builtins otimo) = 0"
    by (simp add: counts_otimo)
  then have "fallbackEmotionAnalysis latin1_builtins otimo = neutral_result"
    by (rule fallback_no_match)
  with mem lower counts_otimo show ?thesis
    by (simp add: neutral_result_def)
qed



section \<open>Classification facade: theorems\<close>

lemma clamp_range: "\<exists>q. Math_min (Math_max n (Fin 0)) (Fin 1) = Fin q \<and> 0 \<le> q \<and> q \<le> 1"
  by (cases n) auto

lemma parse_response_shape:
  assumes "parse_response b response = Inr (Some r)"
  shows "source r = JStr (js ''chrome-ai'') \<and> truthy (emotion r)
     \<and> (\<exists>q. score r = Fin q \<and> 0 \<le> q \<and> q \<le> 1)"
  using assms clamp_range unfolding parse_response_def
  by (auto split: option.splits sum.splits if_splits json.splits)

lemma parse_response_valid:
  "(\<exists>r. parse_response b response = Inr (Some r)) \<longleftrightarrow> valid_response b response"
  unfolding parse_response_def valid_response_def is_number_def truthy_opt_def
  by (auto split: option.splits sum.splits if_splits json.splits)

lemma heuristic_category_name:
  assumes "i < 4"
  shows "\<exists>cat. heuristic_categories ! i = category_name cat"
proof -
  from assms have "i = 0 \<or> i = 1 \<or> i = 2 \<or> i = 3" by arith
  then show ?thesis
  proof (elim disjE)
    assume "i = 0"
    then have "heuristic_categories ! i = category_name Positive"
      by (simp add: heuristic_categories_def)
    then show ?thesis ..
  next
    assume "i = 1"
    then have "heuristic_categories ! i = category_name Negative"
      by (simp add: heuristic_categories_def)
    then show ?thesis ..
  next
    assume "i = 2"
    then have "heuristic_categories ! i = category_name Anxiety"
      by (simp add: heuristic_categories_def)
    then show ?thesis ..
  next
    assume "i = 3"
    then have "heuristic_categories ! i = category_name Anger"
      by (simp add: heuristic_categories_def)
    then show ?thesis ..
  qed
qed

lemma fallback_shape:
  "source (fallbackEmotionAnalysis b text) = JStr (js ''multilingual-heuristic'')
   \<and> (\<exists>cat. emotion (fallbackEmotionAnalysis b text) = JStr (category_name cat))
   \<and> (\<exists>q. score (fallbackEmotionAnalysis b text) = Fin q \<and> 0 \<le> q)"
proof (cases "sum_list (whole_word_counts b text) = 0")
  case True
  have "emotion neutral_result = JStr (category_name Neutral)"
    by (simp add: neutral_result_def)
  then have "\<exists>cat. emotion neutral_result = JStr (category_name cat)" ..
  moreover have "source neutral_result = JStr (js ''multilingual-heuristic'')"
    by (simp add: neutral_result_def)
  moreover have "\<exists>q. score neutral_result = Fin q \<and> 0 \<le> q"
    by (simp add: neutral_result_def)
  ultimately show ?thesis
    unfolding fallback_no_match [OF True] by blast
next
  case False
  from dominant_of_first_max [of heuristic_categories "whole_word_counts b text", OF _ False]
  obtain i where i: "i < 4"
    and best: "dominant_of (zip heuristic_categories (whole_word_counts b text))
        = (heuristic_categories ! i, whole_word_counts b text ! i)"
    by auto
  from heuristic_category_name [OF i] obtain cat
    where cat: "heuristic_categories ! i = category_name cat" ..
  have "emotion (fallbackEmotionAnalysis b text) = JStr (category_name cat)"
    using False cat by (simp add: fallback_unfold best del: sum_list_eq_0_iff)
  then have "\<exists>cat. emotion (fallbackEmotionAnalysis b text) = JStr (category_name cat)" ..
  moreover have "source (fallbackEmotionAnalysis b text) = JStr (js ''multilingual-heuristic'')"
    using False by (simp add: fallback_unfold best del: sum_list_eq_0_iff)
  moreover have "\<exists>q. score (fallbackEmotionAnalysis b text) = Fin q \<and> 0 \<le> q"
    using False by (simp add: fallback_unfold best del: sum_list_eq_0_iff)
  ultimately show ?thesis by blast
qed

lemma analyzeEmotion_cases:
  "analyzeEmotion b env text = Inr (fallbackEmotionAnalysis b text)
   \<or> (\<exists>response r. parse_response b response = Inr (Some r)
        \<and> analyzeEmotion b env text = Inr r)"
  unfolding analyzeEmotion_def analyze_body_def
  by (auto split: option.splits sum.splits rejection.splits)

lemma sample_json_match:
  \<open>json_match sample_response = Some (js ''{"emotion":"joy","score":0.5}'')\<close>
  by (simp add: json_match_def sample_response_def js_Cons)

lemma sample_parse_response:
  "parse_response latin1_builtins sample_response = Inr (Some sample_model_result)"
  by (simp add: parse_response_def sample_json_match sample_parse_def sample_model_result_def
      or_default_def)

lemma hello_is_english: "isEnglishText b s (js ''hello'')"
  by (simp add: isEnglishText_def js_Cons)

lemma stress_is_english: "isEnglishText b s (js ''stress'')"
  by (simp add: isEnglishText_def js_Cons)

lemma sample_ai_result:
  "analyzeEmotion latin1_builtins sample_ai (js ''hello'') = Inr sample_model_result"
  by (simp add: analyzeEmotion_def analyze_body_def active_session_def sample_ai_def
      translateForAnalysis_def hello_is_english sample_parse_response)

text \<open>
  The score of the heuristic path is not bounded by 1: \<open>stress\<close> is listed three times
  in the anxiety lexicon (English, French, German), so the one-token text \<open>stress\<close>
  scores 3.
\<close>

lemma heuristic_score_above_one:
  "analyzeEmotion latin1_builtins no_ai (js ''stress'')
     = Inr \<lparr>emotion = JStr (js ''anxiety''), score = Fin 3, intensity = JStr (js ''high''),
            result_keywords = JArr [], suggestion = JStr [],
            source = JStr (js ''multilingual-heuristic'')\<rparr>"
  by (simp add: analyzeEmotion_def analyze_body_def active_session_def no_ai_def
      initLanguageModel_def fallback_unfold counts_stress tokens_stress dominant_of_def
      dominant_step_def heuristic_categories_def)

text \<open>
  C1, as stated, fails: a model that answers \<open>{"emotion":"joy","score":0.5}\<close> passes the
  validation, and the facade returns the emotion \<open>joy\<close>, which is none of the five
  values of the enumeration.
\<close>

theorem facade_emotion_counterexample:
  "analyzeEmotion latin1_builtins sample_ai (js ''hello'') = Inr sample_model_result
   \<and> emotion sample_model_result = JStr (js ''joy'')
   \<and> js ''joy'' \<notin> set [js ''positive'', js ''negative'', js ''anxiety'', js ''anger'',
        js ''neutral'']"
  by (simp add: sample_ai_result sample_model_result_def)

text \<open>
  C1 (amended). For every input string the facade returns a result of one of two kinds.
  A result of the model path has source \<open>chrome-ai\<close>, a score in [0,1] and as emotion
  the truthy value that the model's response gave. A result of the heuristic fallback
  has source \<open>multilingual-heuristic\<close>, an emotion among positive, negative, anxiety,
  anger, neutral, and a score that is not negative.
\<close>

theorem facade_result_shape:
  assumes "analyzeEmotion b env text = Inr r"
  shows "(source r = JStr (js ''chrome-ai'') \<and> truthy (emotion r)
            \<and> (\<exists>q. score r = Fin q \<and> 0 \<le> q \<and> q \<le> 1))
       \<or> (source r = JStr (js ''multilingual-heuristic'')
            \<and> (\<exists>cat. emotion r = JStr (category_name cat))
            \<and> (\<exists>q. score r = Fin q \<and> 0 \<le> q))"
  using analyzeEmotion_cases [of b env "text"]
proof (elim disjE exE conjE)
  assume "analyzeEmotion b env text = Inr (fallbackEmotionAnalysis b text)"
  with assms have "r = fallbackEmotionAnalysis b text" by simp
  then show ?thesis using fallback_shape [of b "text"] by simp
next
  fix response r'
  assume "parse_response b response = Inr (Some r')" "analyzeEmotion b env text = Inr r'"
  with assms have "parse_response b response = Inr (Some r)" by simp
  then show ?thesis using parse_response_shape by blast
qed

text \<open>Witness: the model path on the sample response, with score 1/2.\<close>

theorem facade_result_shape_witness:
  "analyzeEmotion latin1_builtins sample_ai (js ''hello'') = Inr sample_model_result
   \<and> source sample_model_result = JStr (js ''chrome-ai'')
   \<and> (\<exists>q. score sample_model_result = Fin q \<and> 0 \<le> q \<and> q \<le> 1)"
proof -
  have h: "analyzeEmotion latin1_builtins sample_ai (js ''hello'') = Inr sample_model_result"
    by (rule sample_ai_result)
  have "source sample_model_result \<noteq> JStr (js ''multilingual-heuristic'')"
    by (simp add: sample_model_result_def)
  with facade_result_shape [OF h] h show ?thesis by blast
qed

text \<open>
  C6. For every input string the facade returns a classification result and raises
  nothing: without a usable session, when the translation step or the model call fails,
  and when the response cannot be extracted, parsed or validated, the result is that of
  the heuristic fallback; otherwise it is the validated result of the model.
\<close>

theorem analyzeEmotion_always_returns:
  "(\<exists>r. analyzeEmotion b env text = Inr r)
   \<and> (active_session env = None \<longrightarrow>
        analyzeEmotion b env text = Inr (fallbackEmotionAnalysis b text))
   \<and> (\<forall>s e. active_session env = Some s \<and> translateForAnalysis b env s text = Inl e \<longrightarrow>
        analyzeEmotion b env text = Inr (fallbackEmotionAnalysis b text))
   \<and> (\<forall>s t e. active_session env = Some s \<and> translateForAnalysis b env s text = Inr t
          \<and> s (analysis_prompt (take 5000 t)) = Inl e \<longrightarrow>
        analyzeEmotion b env text = Inr (fallbackEmotionAnalysis b text))
   \<and> (\<forall>s t response. active_session env = Some s \<and> translateForAnalysis b env s text = Inr t
          \<and> s (analysis_prompt (take 5000 t)) = Inr response \<and> \<not> valid_response b response \<longrightarrow>
        analyzeEmotion b env text = Inr (fallbackEmotionAnalysis b text))
   \<and> (\<forall>s t response. active_session env = Some s \<and> translateForAnalysis b env s text = Inr t
          \<and> s (analysis_prompt (take 5000 t)) = Inr response \<and> valid_response b response \<longrightarrow>
        (\<exists>r. parse_response b response = Inr (Some r) \<and> analyzeEmotion b env text = Inr r))"
proof (intro conjI allI impI)
  show "\<exists>r. analyzeEmotion b env text = Inr r"
    using analyzeEmotion_cases [of b env "text"] by blast
next
  assume "active_session env = None"
  then show "analyzeEmotion b env text = Inr (fallbackEmotionAnalysis b text)"
    by (simp add: analyzeEmotion_def analyze_body_def)
next
  fix s e
  assume "active_session env = Some s \<and> translateForAnalysis b env s text = Inl e"
  then show "analyzeEmotion b env text = Inr (fallbackEmotionAnalysis b text)"
    by (simp add: analyzeEmotion_def analyze_body_def)
next
  fix s t e
  assume "active_session env = Some s \<and> translateForAnalysis b env s text = Inr t
      \<and> s (analysis_prompt (take 5000 t)) = Inl e"
  then show "analyzeEmotion b env text = Inr (fallbackEmotionAnalysis b text)"
    by (simp add: analyzeEmotion_def analyze_body_def split: rejection.splits)
next
  fix s t response
  assume a: "active_session env = Some s \<and> translateForAnalysis b env s text = Inr t
      \<and> s (analysis_prompt (take 5000 t)) = Inr response \<and> \<not> valid_response b response"
  then have "\<And>r. parse_response b response \<noteq> Inr (Some r)"
    using parse_response_valid [of b response] by blast
  with a show "analyzeEmotion b env text = Inr (fallbackEmotionAnalysis b text)"
    by (auto simp add: analyzeEmotion_def analyze_body_def split: sum.splits option.splits)
next
  fix s t response
  assume a: "active_session env = Some s \<and> translateForAnalysis b env s text = Inr t
      \<and> s (analysis_prompt (take 5000 t)) = Inr response \<and> valid_response b response"
  then obtain r where "parse_response b response = Inr (Some r)"
    using parse_response_valid [of b response] by blast
  with a show "\<exists>r. parse_response b response = Inr (Some r) \<and> analyzeEmotion b env text = Inr r"
    by (simp add: analyzeEmotion_def analyze_body_def)
qed

text \<open>
  Witness: with no language model, with a session whose prompt is rejected, and with a
  session that answers without any JSON, the facade returns the heuristic result.
\<close>

theorem analyzeEmotion_always_returns_witness:
  "analyzeEmotion latin1_builtins no_ai (js ''stress'')
     = Inr (fallbackEmotionAnalysis latin1_builtins (js ''stress''))
   \<and> analyzeEmotion latin1_builtins failing_ai (js ''stress'')
     = Inr (fallbackEmotionAnalysis latin1_builtins (js ''stress''))
   \<and> analyzeEmotion latin1_builtins garbled_ai (js ''stress'')
     = Inr (fallbackEmotionAnalysis latin1_builtins (js ''stress''))"
proof -
  let ?reject = "\<lambda>prompt :: jsstring. Inl (Thrown Rejected) :: rejection + jsstring"
  let ?garble = "\<lambda>prompt :: jsstring. Inr (js ''I cannot help with that'') :: rejection + jsstring"
  have none: "active_session no_ai = None"
    by (simp add: active_session_def no_ai_def initLanguageModel_def)
  have fail: "active_session failing_ai = Some ?reject
      \<and> translateForAnalysis latin1_builtins failing_ai ?reject (js ''stress'') = Inr (js ''stress'')
      \<and> ?reject (analysis_prompt (take 5000 (js ''stress''))) = Inl (Thrown Rejected)"
    by (simp add: active_session_def failing_ai_def translateForAnalysis_def stress_is_english)
  have invalid: "\<not> valid_response latin1_builtins (js ''I cannot help with that'')"
    by (simp add: valid_response_def json_match_def js_Cons)
  have garbled: "active_session garbled_ai = Some ?garble
      \<and> translateForAnalysis latin1_builtins garbled_ai ?garble (js ''stress'') = Inr (js ''stress'')
      \<and> ?garble (analysis_prompt (take 5000 (js ''stress''))) = Inr (js ''I cannot help with that'')
      \<and> \<not> valid_response latin1_builtins (js ''I cannot help with that'')"
    using invalid
    by (simp add: active_session_def garbled_ai_def translateForAnalysis_def stress_is_english)
  from analyzeEmotion_always_returns [of latin1_builtins no_ai "js ''stress''"] none
  have 1: "analyzeEmotion latin1_builtins no_ai (js ''stress'')
     = Inr (fallbackEmotionAnalysis latin1_builtins (js ''stress''))"
    by blast
  from analyzeEmotion_always_returns [of latin1_builtins failing_ai "js ''stress''"] fail
  have 2: "analyzeEmotion latin1_builtins failing_ai (js ''stress'')
     = Inr (fallbackEmotionAnalysis latin1_builtins (js ''stress''))"
    by blast
  from analyzeEmotion_always_returns [of latin1_builtins garbled_ai "js ''stress''"] garbled
  have 3: "analyzeEmotion latin1_builtins garbled_ai (js ''stress'')
     = Inr (fallbackEmotionAnalysis latin1_builtins (js ''stress''))"
    by blast
  from 1 2 3 show ?thesis by simp
qed

end
